theory Spec2Isabelle
  imports Complex_Main "HOL-Library.Sublist"
begin

section \<open>Python strings\<close>

text \<open>
  A Python \<open>str\<close> is modelled as a \<open>string\<close> whose characters are the code points
  below 256. Scores are Python floats; they are modelled as exact reals, so every
  statement about a score is a statement about the exact value of the arithmetic
  expression the code evaluates.
\<close>

text \<open>\<open>str.isspace\<close> on one character: TAB..CR, FS..US, space, NEL and NBSP.\<close>

definition is_space :: "char \<Rightarrow> bool" where
  "is_space c =
     (let n = (of_char c :: nat)
      in (9 \<le> n \<and> n \<le> 13) \<or> (28 \<le> n \<and> n \<le> 32) \<or> n = 133 \<or> n = 160)"

text \<open>\<open>str.lower\<close> on one character: A..Z and the Latin-1 capitals move up by 32.\<close>

definition lower_char :: "char \<Rightarrow> char" where
  "lower_char c =
     (let n = (of_char c :: nat)
      in if (65 \<le> n \<and> n \<le> 90) \<or> (192 \<le> n \<and> n \<le> 222 \<and> n \<noteq> 215)
         then char_of (n + 32) else c)"

definition py_lower :: "string \<Rightarrow> string" where
  "py_lower s = map lower_char s"

text \<open>\<open>str.split()\<close> with no argument: maximal runs of non-whitespace characters.\<close>

fun split_from :: "string \<Rightarrow> string \<Rightarrow> string list" where
  "split_from w [] = (if w = [] then [] else [w])"
| "split_from w (c # cs) =
     (if is_space c then (if w = [] then split_from [] cs else w # split_from [] cs)
      else split_from (w @ [c]) cs)"

definition py_split :: "string \<Rightarrow> string list" where
  "py_split s = split_from [] s"

text \<open>\<open>str.strip()\<close> with no argument.\<close>

definition py_strip :: "string \<Rightarrow> string" where
  "py_strip s = rev (dropWhile is_space (rev (dropWhile is_space s)))"

text \<open>The operator \<open>t in s\<close> on strings: \<open>t\<close> occurs in \<open>s\<close> as a contiguous block.\<close>

fun py_in :: "string \<Rightarrow> string \<Rightarrow> bool" where
  "py_in t [] = (t = [])"
| "py_in t (c # cs) = (prefix t (c # cs) \<or> py_in t cs)"

text \<open>
  \<open>s.count(t)\<close>: the number of non-overlapping occurrences of \<open>t\<close> in \<open>s\<close>, scanning
  from the left; for the empty \<open>t\<close> Python answers \<open>len(s) + 1\<close>.
\<close>

function py_count :: "string \<Rightarrow> string \<Rightarrow> nat" where
  "py_count s t =
     (if t = [] then length s + 1
      else if s = [] then 0
      else if prefix t s then 1 + py_count (drop (length t) s) t
      else py_count (tl s) t)"
  by pat_completeness auto
termination
  by (relation "measure (\<lambda>(s, t). length s)") auto

declare py_count.simps [simp del]

text \<open>Truthiness of an optional text column: \<open>None\<close> and the empty string are false.\<close>

fun truthy :: "string option \<Rightarrow> bool" where
  "truthy None = False"
| "truthy (Some s) = (s \<noteq> [])"

section \<open>The data model (backend/models/document.py)\<close>

record document =
  doc_id :: int
  title :: "string option"
  content :: "string option"
  summary :: "string option"
  processing_status :: string

record concept =
  concept_id :: int
  name :: string
  description :: "string option"
  category :: "string option"
  frequency :: int

text \<open>A row of the association table \<open>document_concepts\<close>.\<close>

record document_concept =
  link_document_id :: int
  link_concept_id :: int
  relevance_score :: real
  link_context :: "string option"

text \<open>
  A \<open>ConceptRelation\<close>; its primary key is \<open>None\<close> while the object has not been
  added to the session.
\<close>

record concept_relation =
  relation_id :: "int option"
  concept1_id :: int
  concept2_id :: int
  relation_type :: string
  strength :: real

text \<open>The database: one list of rows per table, in insertion order.\<close>

record kb =
  documents :: "document list"
  concepts :: "concept list"
  document_concepts :: "document_concept list"
  concept_relations :: "concept_relation list"

text \<open>
  The relationship \<open>Concept.documents\<close>: the documents joined to the concept through
  \<open>document_concepts\<close>.
\<close>

definition documents_of :: "kb \<Rightarrow> concept \<Rightarrow> document list" where
  "documents_of db c =
     filter (\<lambda>d. list_ex (\<lambda>l. link_document_id l = doc_id d \<and>
                               link_concept_id l = concept_id c) (document_concepts db))
            (documents db)"

section \<open>Concept similarity and relation type (backend/services/concept_analyzer.py)\<close>

definition calculate_concept_similarity :: "kb \<Rightarrow> concept \<Rightarrow> concept \<Rightarrow> real" where
  "calculate_concept_similarity db concept1 concept2 =
     (let words1 = set (py_split (py_lower (name concept1)));
          words2 = set (py_split (py_lower (name concept2)));
          score1 = (if words1 \<noteq> {} \<and> words2 \<noteq> {}
                    then 0 + real (card (words1 \<inter> words2)) / real (card (words1 \<union> words2)) * 0.4
                    else 0);
          score2 = (if category concept1 = category concept2 then score1 + 0.3 else score1);
          common_docs = set (map doc_id (documents_of db concept1)) \<inter>
                        set (map doc_id (documents_of db concept2));
          score3 = (if common_docs \<noteq> {}
                    then score2 + real (card common_docs) /
                           real (max (length (documents_of db concept1))
                                     (length (documents_of db concept2))) * 0.3
                    else score2)
      in min score3 1.0)"

definition determine_relation_type :: "concept \<Rightarrow> concept \<Rightarrow> real \<Rightarrow> string" where
  "determine_relation_type concept1 concept2 similarity =
     (if similarity > 0.8 then ''synonym''
      else if category concept1 = category concept2 then ''related''
      else if py_in ''design'' (name concept1) \<and> py_in ''design'' (name concept2) then ''related''
      else if similarity > 0.6 then ''related''
      else ''weak_relation'')"

text \<open>The similarity as the specification words it: three weighted terms, capped.\<close>

definition spec_jaccard :: "string set \<Rightarrow> string set \<Rightarrow> real" where
  "spec_jaccard A B = (if A \<union> B = {} then 0 else real (card (A \<inter> B)) / real (card (A \<union> B)))"

definition spec_co_occurrence :: "int list \<Rightarrow> int list \<Rightarrow> real" where
  "spec_co_occurrence ds1 ds2 =
     (if set ds1 \<inter> set ds2 = {} then 0
      else real (card (set ds1 \<inter> set ds2)) / real (max (length ds1) (length ds2)))"

definition spec_similarity :: "kb \<Rightarrow> concept \<Rightarrow> concept \<Rightarrow> real" where
  "spec_similarity db c1 c2 =
     min 1 (spec_jaccard (set (py_split (py_lower (name c1)))) (set (py_split (py_lower (name c2)))) * 0.4
            + (if category c1 = category c2 then 0.3 else 0)
            + spec_co_occurrence (map doc_id (documents_of db c1)) (map doc_id (documents_of db c2)) * 0.3)"

text \<open>The example pair of the specification, over four documents.\<close>

definition example_doc :: "int \<Rightarrow> document" where
  "example_doc i = \<lparr>doc_id = i, title = None, content = None, summary = None,
                    processing_status = ''completed''\<rparr>"

definition example_link :: "int \<Rightarrow> int \<Rightarrow> document_concept" where
  "example_link d c = \<lparr>link_document_id = d, link_concept_id = c, relevance_score = 0.9,
                       link_context = None\<rparr>"

definition concept_A :: concept where
  "concept_A = \<lparr>concept_id = 1, name = ''user interface'', description = None,
                category = Some ''interaction_design'', frequency = 1\<rparr>"

definition concept_B :: concept where
  "concept_B = \<lparr>concept_id = 2, name = ''interface design'', description = None,
                category = Some ''interaction_design'', frequency = 1\<rparr>"

definition example_kb :: kb where
  "example_kb = \<lparr>documents = map example_doc [1, 2, 3, 4],
                 concepts = [concept_A, concept_B],
                 document_concepts = map (\<lambda>d. example_link d 1) [1, 2, 3] @
                                     map (\<lambda>d. example_link d 2) [2, 3, 4],
                 concept_relations = []\<rparr>"

section \<open>Fallback lexical relevance (backend/services/search_engine.py)\<close>

definition title_loop :: "string \<Rightarrow> string list \<Rightarrow> real \<Rightarrow> real" where
  "title_loop title_lower query_terms score =
     foldl (\<lambda>score term. if py_in term title_lower then score + 2.0 else score) score query_terms"

definition summary_loop :: "string \<Rightarrow> string list \<Rightarrow> real \<Rightarrow> real" where
  "summary_loop summary_lower query_terms score =
     foldl (\<lambda>score term. score + real (py_count summary_lower term) * 1.0) score query_terms"

definition content_loop :: "string \<Rightarrow> string list \<Rightarrow> real \<Rightarrow> real" where
  "content_loop content_lower query_terms score =
     foldl (\<lambda>score term. score + min (real (py_count content_lower term) * 0.1) 1.0)
           score query_terms"

definition calculate_simple_relevance :: "document \<Rightarrow> string \<Rightarrow> real" where
  "calculate_simple_relevance document query =
     (let query_terms = py_split (py_lower query);
          score0 = 0;
          score1 = (case title document of
                      Some t \<Rightarrow> if t \<noteq> [] then title_loop (py_lower t) query_terms score0
                                else score0
                    | None \<Rightarrow> score0);
          score2 = (case summary document of
                      Some s \<Rightarrow> if s \<noteq> [] then summary_loop (py_lower s) query_terms score1
                                else score1
                    | None \<Rightarrow> score1);
          score3 = (case content document of
                      Some c \<Rightarrow> if c \<noteq> [] then content_loop (py_lower c) query_terms score2
                                else score2
                    | None \<Rightarrow> score2)
      in score3)"

text \<open>The number of occurrences of a term in a text column, as \<open>str.count\<close> counts them
  in the lower-cased text; a missing column has none.\<close>

fun occurrences :: "string option \<Rightarrow> string \<Rightarrow> nat" where
  "occurrences None term = 0"
| "occurrences (Some s) term = py_count (py_lower s) term"

definition title_contribution :: "document \<Rightarrow> string \<Rightarrow> real" where
  "title_contribution d term = (if 0 < occurrences (title d) term then 2.0 else 0)"

definition summary_contribution :: "document \<Rightarrow> string \<Rightarrow> real" where
  "summary_contribution d term = real (occurrences (summary d) term) * 1.0"

definition content_contribution :: "document \<Rightarrow> string \<Rightarrow> real" where
  "content_contribution d term = min (real (occurrences (content d) term) * 0.1) 1.0"

definition usability_doc :: "nat \<Rightarrow> document" where
  "usability_doc n = \<lparr>doc_id = 1, title = Some ''Notes'', content = Some (concat (replicate n ''usability '')),
                      summary = None, processing_status = ''completed''\<rparr>"

section \<open>Hybrid fusion (backend/services/search_engine.py)\<close>

text \<open>
  A search result is a dictionary; the keys \<open>search_methods\<close> and \<open>matched_concepts\<close>
  are present only in some results. The highlight entries are not inspected here.
  \<open>list(set(search_types))\<close> has no fixed order, so \<open>search_methods\<close> is a set.
\<close>

record 'h result =
  res_document :: document
  score :: real
  search_type :: string
  highlights :: "'h list"
  search_methods :: "string set option"
  matched_concepts :: "int option"

text \<open>\<open>result['document'].id\<close>.\<close>

definition result_doc :: "'h result \<Rightarrow> int" where
  "result_doc r = doc_id (res_document r)"

text \<open>
  \<open>doc_results[doc_id].append(result)\<close> on a \<open>defaultdict(list)\<close>, which keeps its keys
  in the order of their first insertion.
\<close>

fun group_insert :: "int \<Rightarrow> 'a \<Rightarrow> (int \<times> 'a list) list \<Rightarrow> (int \<times> 'a list) list" where
  "group_insert k v [] = [(k, [v])]"
| "group_insert k v ((k', vs) # rest) =
     (if k = k' then (k', vs @ [v]) # rest else (k', vs) # group_insert k v rest)"

text \<open>The keys of the dictionary, in the order of their first insertion.\<close>

definition first_keys :: "int list \<Rightarrow> int list" where
  "first_keys ks = rev (remdups (rev ks))"

definition group_by_document :: "'h result list \<Rightarrow> (int \<times> 'h result list) list" where
  "group_by_document results =
     foldl (\<lambda>doc_results result. group_insert (result_doc result) result doc_results)
           [] results"

definition mode_weight :: "string \<Rightarrow> real" where
  "mode_weight t =
     (if t = ''keyword'' then 0.4
      else if t = ''semantic'' then 0.4
      else if t = ''concept'' then 0.2
      else 0.3)"

text \<open>
  The body of the loop over the groups: what one group appends to \<open>merged_results\<close>.
  A group is never empty.
\<close>

fun merge_group :: "'h result list \<Rightarrow> 'h result list" where
  "merge_group [] = []"
| "merge_group [r] = [r]"
| "merge_group (r # rs) =
     (let doc_result_list = r # rs;
          combined_score =
            foldl (\<lambda>combined_score result.
                     combined_score + score result * mode_weight (search_type result))
                  0 doc_result_list;
          search_types = map search_type doc_result_list;
          all_highlights = concat (map highlights doc_result_list);
          method_bonus = real (card (set search_types)) * 0.1
      in [\<lparr>res_document = res_document r,
           score = combined_score + method_bonus,
           search_type = ''hybrid'',
           highlights = take 5 all_highlights,
           search_methods = Some (set search_types),
           matched_concepts = None\<rparr>])"

text \<open>
  \<open>sorted(xs, key=score, reverse=True)\<close> is stable: results of equal score keep their
  order. Sorting by the negated score with the stable insertion sort does the same.
\<close>

definition sort_by_score :: "'h result list \<Rightarrow> 'h result list" where
  "sort_by_score rs = sort_key (\<lambda>r. - score r) rs"

definition merge_search_results :: "'h result list \<Rightarrow> string \<Rightarrow> 'h result list" where
  "merge_search_results results stype =
     (if stype \<noteq> ''hybrid'' then results
      else sort_by_score (concat (map (\<lambda>(doc_id, doc_result_list). merge_group doc_result_list)
                                      (group_by_document results))))"

text \<open>The fusion example: one document found by the keyword and the concept retriever.\<close>

definition found :: "int \<Rightarrow> real \<Rightarrow> string \<Rightarrow> string result" where
  "found d s t = \<lparr>res_document = example_doc d, score = s, search_type = t, highlights = [],
                  search_methods = None, matched_concepts = None\<rparr>"

definition fusion_example :: "string result list" where
  "fusion_example = [found 1 0.5 ''keyword'', found 1 0.3 ''concept'']"

section \<open>The concept registry (backend/services/concept_analyzer.py, backend/api/concepts.py)\<close>

text \<open>
  The ORM is modelled on the rows of the tables: a query is a search in the list of
  rows, \<open>first()\<close> is the first match, an attribute assignment is an update of the row
  with the object's primary key, and a new row gets the key SQLite gives it, one more
  than the largest key of the table. \<open>filter_by(name=...)\<close> compares names with the
  database's \<open>=\<close>, which on SQLite (the configured default) is exact equality.
\<close>

definition next_id :: "int list \<Rightarrow> int" where
  "next_id ids = (if ids = [] then 1 else Max (set ids) + 1)"

text \<open>One extracted sighting: the dictionary \<open>concept_data\<close>; the key \<open>context\<close> may be absent.\<close>

record concept_data =
  cd_name :: string
  cd_category :: "string option"
  cd_context :: "string option"
  cd_confidence :: real

definition context_or_empty :: "concept_data \<Rightarrow> string" where
  "context_or_empty cd = (case cd_context cd of None \<Rightarrow> [] | Some s \<Rightarrow> s)"

definition find_concept_by_name :: "kb \<Rightarrow> string \<Rightarrow> concept option" where
  "find_concept_by_name db n = find (\<lambda>c. name c = n) (concepts db)"

definition bump_frequency :: "int \<Rightarrow> concept \<Rightarrow> concept" where
  "bump_frequency i x = (if concept_id x = i then x\<lparr>frequency := frequency x + 1\<rparr> else x)"

text \<open>
  The body of the loop of \<open>save_concepts_to_db\<close>: the upsert of one sighting and its link
  to the document. It returns the new database and the key of the concept object that
  the loop appends to \<open>saved_concepts\<close>.
\<close>

definition save_concept :: "int \<Rightarrow> kb \<Rightarrow> concept_data \<Rightarrow> kb \<times> int" where
  "save_concept document_id db cd =
     (let (db1, cid) =
            (case find_concept_by_name db (cd_name cd) of
               None \<Rightarrow>
                 (let c = \<lparr>concept_id = next_id (map concept_id (concepts db)),
                           name = cd_name cd,
                           description = Some (take 500 (context_or_empty cd)),
                           category = cd_category cd,
                           frequency = 1\<rparr>
                  in (db\<lparr>concepts := concepts db @ [c]\<rparr>, concept_id c))
             | Some c \<Rightarrow>
                 (db\<lparr>concepts := map (bump_frequency (concept_id c)) (concepts db)\<rparr>,
                  concept_id c))
      in (case find (\<lambda>l. link_document_id l = document_id \<and> link_concept_id l = cid)
                    (document_concepts db1) of
            None \<Rightarrow>
              (db1\<lparr>document_concepts := document_concepts db1 @
                       [\<lparr>link_document_id = document_id, link_concept_id = cid,
                         relevance_score = cd_confidence cd,
                         link_context = Some (take 1000 (context_or_empty cd))\<rparr>]\<rparr>, cid)
          | Some existing_link \<Rightarrow> (db1, cid)))"

fun save_concepts_to_db :: "kb \<Rightarrow> concept_data list \<Rightarrow> int \<Rightarrow> kb \<times> int list" where
  "save_concepts_to_db db [] document_id = (db, [])"
| "save_concepts_to_db db (cd # rest) document_id =
     (let (db1, cid) = save_concept document_id db cd;
          (db2, saved) = save_concepts_to_db db1 rest document_id
      in (db2, cid # saved))"

subsection \<open>Relations\<close>

text \<open>The query for an existing relation between two concepts, in either direction.\<close>

definition relation_exists :: "kb \<Rightarrow> int \<Rightarrow> int \<Rightarrow> bool" where
  "relation_exists db a b =
     list_ex (\<lambda>r. (concept1_id r = a \<and> concept2_id r = b) \<or>
                   (concept1_id r = b \<and> concept2_id r = a)) (concept_relations db)"

definition relation_for :: "kb \<Rightarrow> real \<Rightarrow> concept \<Rightarrow> concept \<Rightarrow> concept_relation list" where
  "relation_for db similarity_threshold concept other_concept =
     (let similarity = calculate_concept_similarity db concept other_concept
      in if similarity > similarity_threshold
         then (if \<not> relation_exists db (concept_id concept) (concept_id other_concept)
               then [\<lparr>relation_id = None,
                      concept1_id = concept_id concept,
                      concept2_id = concept_id other_concept,
                      relation_type = determine_relation_type concept other_concept similarity,
                      strength = similarity\<rparr>]
               else [])
         else [])"

definition find_concept_relations :: "kb \<Rightarrow> int \<Rightarrow> real \<Rightarrow> concept_relation list" where
  "find_concept_relations db cid similarity_threshold =
     (case find (\<lambda>c. concept_id c = cid) (concepts db) of
        None \<Rightarrow> []
      | Some concept \<Rightarrow>
          concat (map (relation_for db similarity_threshold concept)
                      (filter (\<lambda>c. concept_id c \<noteq> cid) (concepts db))))"

text \<open>
  \<open>db.session.add(relation)\<close> for each relation found, then the commit (the end of
  \<open>process_document_concepts\<close>): each new row gets its key.
\<close>

text \<open>
  The loop of \<open>process_document_concepts\<close> over the saved concepts: the relations of
  each are looked up against the table as it is, and all of them are added afterwards.
\<close>

definition collect_relations :: "kb \<Rightarrow> int list \<Rightarrow> concept_relation list" where
  "collect_relations db saved = concat (map (\<lambda>cid. find_concept_relations db cid 0.3) saved)"

definition relation_ids :: "concept_relation list \<Rightarrow> int list" where
  "relation_ids rels = concat (map (\<lambda>r. case relation_id r of None \<Rightarrow> [] | Some i \<Rightarrow> [i]) rels)"

definition add_relation :: "kb \<Rightarrow> concept_relation \<Rightarrow> kb" where
  "add_relation db r =
     db\<lparr>concept_relations := concept_relations db @
           [r\<lparr>relation_id := Some (next_id (relation_ids (concept_relations db)))\<rparr>]\<rparr>"

definition save_relations :: "kb \<Rightarrow> concept_relation list \<Rightarrow> kb" where
  "save_relations db all_relations = foldl add_relation db all_relations"

subsection \<open>Merging two concepts\<close>

datatype py_exception = NotFound | ValueError | TypeError | Re_error

text \<open>A JSON response with its HTTP status; an error carries the message.\<close>

datatype 'a response = Ok_200 'a | Error_response string nat

text \<open>\<open>Concept.query.get_or_404\<close>: the row with that key, or the exception \<open>NotFound\<close>.\<close>

definition get_or_404 :: "kb \<Rightarrow> int \<Rightarrow> py_exception + concept" where
  "get_or_404 db i =
     (case find (\<lambda>c. concept_id c = i) (concepts db) of
        None \<Rightarrow> Inl NotFound
      | Some c \<Rightarrow> Inr c)"

text \<open>The loop over \<open>relations_to_update\<close>: one relation that mentions the secondary.\<close>

definition repoint :: "int \<Rightarrow> int \<Rightarrow> concept_relation \<Rightarrow> concept_relation" where
  "repoint primary_id secondary_id relation =
     (if concept1_id relation = secondary_id \<or> concept2_id relation = secondary_id
      then (if concept1_id relation = secondary_id
            then relation\<lparr>concept1_id := primary_id\<rparr>
            else relation\<lparr>concept2_id := primary_id\<rparr>)
      else relation)"

text \<open>
  The links the loop over \<open>secondary_concept.documents\<close> appends to the primary: the
  association row gets the column defaults.
\<close>

definition transferred_links :: "kb \<Rightarrow> concept \<Rightarrow> concept \<Rightarrow> document_concept list" where
  "transferred_links db primary_concept secondary_concept =
     map (\<lambda>d. \<lparr>link_document_id = doc_id d, link_concept_id = concept_id primary_concept,
                relevance_score = 0.0, link_context = None\<rparr>)
         (filter (\<lambda>d. doc_id d \<notin> set (map doc_id (documents_of db primary_concept)))
                 (documents_of db secondary_concept))"

text \<open>
  The statements of \<open>merge_concepts\<close> between the check of the arguments and the
  response, up to the commit. Deleting the secondary deletes its rows of
  \<open>document_concepts\<close> with it.
\<close>

definition merge_rows :: "kb \<Rightarrow> int \<Rightarrow> int \<Rightarrow> py_exception + (kb \<times> concept)" where
  "merge_rows db primary_id secondary_id =
     (case get_or_404 db primary_id of
        Inl e \<Rightarrow> Inl e
      | Inr primary_concept \<Rightarrow>
          (case get_or_404 db secondary_id of
             Inl e \<Rightarrow> Inl e
           | Inr secondary_concept \<Rightarrow>
               (let merged = primary_concept\<lparr>frequency :=
                                frequency primary_concept + frequency secondary_concept\<rparr>;
                    new_links = transferred_links db primary_concept secondary_concept;
                    db' = db\<lparr>concepts :=
                               filter (\<lambda>c. concept_id c \<noteq> secondary_id)
                                 (map (\<lambda>c. if concept_id c = primary_id then merged else c)
                                      (concepts db)),
                             document_concepts :=
                               filter (\<lambda>l. link_concept_id l \<noteq> secondary_id)
                                 (document_concepts db @ new_links),
                             concept_relations :=
                               map (repoint primary_id secondary_id) (concept_relations db)\<rparr>
                in Inr (db', merged))))"

text \<open>
  The view function. \<open>not primary_id\<close> holds for a missing key and for 0. The whole body
  runs under \<open>try\<close> with \<open>except Exception\<close>, which also catches the \<open>NotFound\<close> that
  \<open>get_or_404\<close> raises (it is a subclass of \<open>Exception\<close>), rolls back, and answers 500.
\<close>

definition merge_concepts :: "kb \<Rightarrow> int option \<Rightarrow> int option \<Rightarrow> kb \<times> concept response" where
  "merge_concepts db primary_id secondary_id =
     (case (primary_id, secondary_id) of
        (Some p, Some s) \<Rightarrow>
          (if p = 0 \<or> s = 0
           then (db, Error_response ''Both primary_id and secondary_id required'' 400)
           else (case merge_rows db p s of
                   Inl e \<Rightarrow> (db, Error_response ''Internal server error'' 500)
                 | Inr (db', merged) \<Rightarrow> (db', Ok_200 merged)))
      | _ \<Rightarrow> (db, Error_response ''Both primary_id and secondary_id required'' 400))"

subsection \<open>The invariant of the relation table\<close>

text \<open>No relation joins a concept to itself, and no two relations join the same two concepts.\<close>

definition endpoints :: "concept_relation \<Rightarrow> int \<times> int" where
  "endpoints r = (concept1_id r, concept2_id r)"

definition unordered_pair :: "concept_relation \<Rightarrow> int set" where
  "unordered_pair r = {concept1_id r, concept2_id r}"

definition relation_invariant :: "concept_relation list \<Rightarrow> bool" where
  "relation_invariant rels =
     (list_all (\<lambda>r. concept1_id r \<noteq> concept2_id r) rels \<and> distinct (map unordered_pair rels))"


subsection \<open>Example databases\<close>

definition ux_concept :: concept where
  "ux_concept = \<lparr>concept_id = 1, name = ''ux'', description = None,
                 category = Some ''interaction_design'', frequency = 1\<rparr>"

definition ux_kb :: kb where
  "ux_kb = \<lparr>documents = [example_doc 1], concepts = [ux_concept],
            document_concepts = [example_link 1 1], concept_relations = []\<rparr>"

definition sighting :: "string \<Rightarrow> concept_data" where
  "sighting n = \<lparr>cd_name = n, cd_category = Some ''interaction_design'',
                 cd_context = Some ''seen here'', cd_confidence = 0.9\<rparr>"

definition example_relation :: "int \<Rightarrow> int \<Rightarrow> int \<Rightarrow> concept_relation" where
  "example_relation i a b = \<lparr>relation_id = Some i, concept1_id = a, concept2_id = b,
                             relation_type = ''related'', strength = 0.5\<rparr>"

definition concept_C :: concept where
  "concept_C = \<lparr>concept_id = 3, name = ''usability'', description = None,
                category = Some ''usability'', frequency = 2\<rparr>"

text \<open>Both A and B are related to C.\<close>

definition triangle_kb :: kb where
  "triangle_kb = example_kb\<lparr>concepts := [concept_A, concept_B, concept_C],
                            concept_relations := [example_relation 1 1 3, example_relation 2 2 3]\<rparr>"



section \<open>The search engine (backend/services/search_engine.py)\<close>

text \<open>
  What the engine keeps between queries. \<open>tfidf_built\<close> stands for the test
  \<open>self.tfidf_vectorizer and self.tfidf_matrix is not None\<close>, \<open>embedding_model\<close> for
  the truth value of \<open>self.embedding_model\<close>; of the dictionary \<open>document_embeddings\<close>
  only the keys are kept, the vectors are the provider's.
\<close>

record search_engine =
  embedding_model :: bool
  tfidf_built :: bool
  doc_ids :: "int list"
  document_embeddings :: "int list"

text \<open>
  What the engine calls outside the repository: the database, the vectoriser, the
  embedding provider and the regular expression library.
  \<^item> \<open>candidates\<close>: the rows of the text search of \<open>_keyword_search\<close>
    (\<open>db_query.limit(limit * 2).all()\<close>);
  \<^item> \<open>similarities\<close>: \<open>transform\<close> and \<open>cosine_similarity\<close>, one similarity for each
    row of the matrix, \<open>None\<close> when the computation raises;
  \<^item> \<open>re_sub\<close>: \<open>re.sub(re.escape(t), template, text, flags=re.IGNORECASE)\<close> as a
    function of \<open>t\<close>, the template and the text; it raises \<open>re.error\<close> on a template
    it cannot read;
  \<^item> \<open>semantic_similarity\<close>: the similarity of the query to the embedding of a
    document, \<open>None\<close> when the provider raises;
  \<^item> \<open>documents_by_id\<close>: the rows of \<open>Document.id.in_(top_doc_ids)\<close> under the filters;
  \<^item> \<open>matching_concepts\<close>: the rows of the concept query of \<open>_concept_search\<close>;
  \<^item> \<open>concept_documents\<close>: the rows of its grouped query, each a document with the
    number of matched concepts and the average relevance (\<open>None\<close> for SQL's NULL).
\<close>

record 'f collaborators =
  candidates :: "string \<Rightarrow> 'f \<Rightarrow> int \<Rightarrow> document list"
  similarities :: "string \<Rightarrow> real list option"
  re_sub :: "string \<Rightarrow> string \<Rightarrow> string \<Rightarrow> py_exception + string"
  semantic_similarity :: "string \<Rightarrow> (int \<Rightarrow> real) option"
  documents_by_id :: "int list \<Rightarrow> 'f \<Rightarrow> document list"
  matching_concepts :: "string \<Rightarrow> concept list"
  concept_documents :: "int list \<Rightarrow> 'f \<Rightarrow> int \<Rightarrow> (document \<times> int \<times> real option) list"

subsection \<open>Building the index\<close>

text \<open>
  \<open>__init__\<close> and \<open>build_search_index\<close>. \<open>model_loads\<close> tells whether the sentence
  transformer could be loaded, \<open>fit\<close> whether \<open>fit_transform\<close> accepts the corpus (it
  raises \<open>ValueError\<close> otherwise, and nothing catches it), \<open>encode\<close> whether the model
  encodes a text (a failure skips the document).
\<close>

definition build_search_index ::
  "(string list \<Rightarrow> bool) \<Rightarrow> (string \<Rightarrow> bool) \<Rightarrow> document list \<Rightarrow> search_engine
     \<Rightarrow> py_exception + search_engine" where
  "build_search_index fit encode all_documents eng =
     (let docs = filter (\<lambda>d. processing_status d = ''completed'') all_documents
      in if docs = [] then Inr eng
         else
           (let with_content = filter (\<lambda>doc. truthy (content doc)) docs;
                corpus = map (\<lambda>doc. case content doc of Some c \<Rightarrow> c | None \<Rightarrow> []) with_content;
                embedded = filter (\<lambda>doc. case content doc of
                                             Some c \<Rightarrow> encode (take 1000 c) | None \<Rightarrow> False)
                                  with_content
            in if corpus \<noteq> [] \<and> \<not> fit corpus then Inl ValueError
               else
                 (let eng1 = (if corpus \<noteq> []
                              then eng\<lparr>tfidf_built := True, doc_ids := map doc_id with_content\<rparr>
                              else eng)
                  in Inr (if embedding_model eng1
                          then eng1\<lparr>document_embeddings :=
                                      document_embeddings eng1 @ map doc_id embedded\<rparr>
                          else eng1))))"

definition new_search_engine ::
  "bool \<Rightarrow> (string list \<Rightarrow> bool) \<Rightarrow> (string \<Rightarrow> bool) \<Rightarrow> document list
     \<Rightarrow> py_exception + search_engine" where
  "new_search_engine model_loads fit encode all_documents =
     build_search_index fit encode all_documents
       \<lparr>embedding_model = model_loads, tfidf_built = False, doc_ids = [],
        document_embeddings = []\<rparr>"

subsection \<open>Highlights\<close>

text \<open>
  A highlight is a dictionary with the keys \<open>source\<close> and \<open>text\<close> and either \<open>position\<close>
  (a keyword highlight) or \<open>concept\<close> (a concept highlight).
\<close>

record highlight =
  h_source :: string
  h_text :: string
  h_position :: "nat option"
  h_concept :: "string option"

text \<open>\<open>s.find(t, start)\<close>: the lowest index from \<open>start\<close> on at which \<open>t\<close> occurs.\<close>

fun first_index :: "string \<Rightarrow> string \<Rightarrow> nat option" where
  "first_index t [] = (if t = [] then Some 0 else None)"
| "first_index t (c # cs) =
     (if prefix t (c # cs) then Some 0 else map_option Suc (first_index t cs))"

definition py_find :: "string \<Rightarrow> string \<Rightarrow> nat \<Rightarrow> nat option" where
  "py_find s t start =
     (if length s < start then None
      else map_option (\<lambda>i. i + start) (first_index t (drop start s)))"

text \<open>The text around an occurrence: fifty characters on each side.\<close>

definition context_of :: "string \<Rightarrow> nat \<Rightarrow> nat \<Rightarrow> string" where
  "context_of text pos n =
     (let context_start = pos - 50;
          context_end = min (length text) (pos + n + 50)
      in take (context_end - context_start) (drop context_start text))"

definition mark_template :: "string \<Rightarrow> string" where
  "mark_template t = ''<mark>'' @ t @ ''</mark>''"

text \<open>
  The \<open>while\<close> loop of \<open>_extract_highlights\<close> for one term in one text: one highlight
  for each occurrence, until there are three highlights. An exception of \<open>re.sub\<close>
  leaves the function.
\<close>

function highlight_occurrences ::
  "(string \<Rightarrow> string \<Rightarrow> string \<Rightarrow> py_exception + string) \<Rightarrow> string \<Rightarrow> string \<Rightarrow> string
     \<Rightarrow> nat \<Rightarrow> highlight list \<Rightarrow> py_exception + highlight list" where
  "highlight_occurrences sub source_type text t start hs =
     (case py_find (py_lower text) t start of
        None \<Rightarrow> Inr hs
      | Some pos \<Rightarrow>
          (case sub t (mark_template t) (context_of text pos (length t)) of
             Inl e \<Rightarrow> Inl e
           | Inr highlighted \<Rightarrow>
               (let hs' = hs @ [\<lparr>h_source = source_type, h_text = highlighted,
                                  h_position = Some pos, h_concept = None\<rparr>]
                in if 3 \<le> length hs' then Inr hs'
                   else highlight_occurrences sub source_type text t (pos + 1) hs')))"
  by pat_completeness auto

termination
proof (relation "measure (\<lambda>(sub, source_type, text, t, start, hs). Suc (length text) - start)")
  show "wf (measure (\<lambda>(sub, source_type, text, t, start, hs). Suc (length text) - start))"
    by simp
next
  fix sub :: "string \<Rightarrow> string \<Rightarrow> string \<Rightarrow> py_exception + string"
  fix source_type body t :: string and start pos :: nat and hs hs' :: "highlight list"
  fix highlighted :: string
  assume found: "py_find (py_lower body) t start = Some pos"
  have bound: "i \<le> length s" if "first_index t s = Some i" for s i
    using that by (induction s arbitrary: i) (auto split: if_splits)
  from found obtain i where i: "first_index t (drop start (py_lower body)) = Some i"
    and pos: "pos = i + start" and start: "start \<le> length (py_lower body)"
    by (auto simp: py_find_def split: if_splits)
  from bound [OF i] have "i + start \<le> length (py_lower body)"
    using start by simp
  then have "pos \<le> length body" and "start \<le> pos"
    using pos by (simp_all add: py_lower_def)
  then show "((sub, source_type, body, t, pos + 1, hs'), (sub, source_type, body, t, start, hs))
        \<in> measure (\<lambda>(sub, source_type, text, t, start, hs). Suc (length text) - start)"
    by simp
qed

declare highlight_occurrences.simps [simp del]

text \<open>The loop over the query terms for one text.\<close>

fun highlight_terms ::
  "(string \<Rightarrow> string \<Rightarrow> string \<Rightarrow> py_exception + string) \<Rightarrow> string \<Rightarrow> string \<Rightarrow> string list
     \<Rightarrow> highlight list \<Rightarrow> py_exception + highlight list" where
  "highlight_terms sub source_type text [] hs = Inr hs"
| "highlight_terms sub source_type text (t # rest) hs =
     (if py_in t (py_lower text)
      then (case highlight_occurrences sub source_type text t 0 hs of
              Inl e \<Rightarrow> Inl e
            | Inr hs' \<Rightarrow> highlight_terms sub source_type text rest hs')
      else highlight_terms sub source_type text rest hs)"

text \<open>The loop over title, summary and content; it stops after a text that filled three highlights.\<close>

fun highlight_sources ::
  "(string \<Rightarrow> string \<Rightarrow> string \<Rightarrow> py_exception + string) \<Rightarrow> (string \<times> string option) list
     \<Rightarrow> string list \<Rightarrow> highlight list \<Rightarrow> py_exception + highlight list" where
  "highlight_sources sub [] query_terms hs = Inr hs"
| "highlight_sources sub ((source_type, text) # rest) query_terms hs =
     (case text of
        None \<Rightarrow> highlight_sources sub rest query_terms hs
      | Some s \<Rightarrow>
          if s = [] then highlight_sources sub rest query_terms hs
          else (case highlight_terms sub source_type s query_terms hs of
                  Inl e \<Rightarrow> Inl e
                | Inr hs' \<Rightarrow> if 3 \<le> length hs' then Inr hs'
                             else highlight_sources sub rest query_terms hs'))"

definition extract_highlights ::
  "(string \<Rightarrow> string \<Rightarrow> string \<Rightarrow> py_exception + string) \<Rightarrow> document \<Rightarrow> string
     \<Rightarrow> py_exception + highlight list" where
  "extract_highlights sub doc query =
     (let query_terms = map py_lower (py_split query);
          text_sources = [(''title'', title doc), (''summary'', summary doc),
                          (''content'', content doc)]
      in case highlight_sources sub text_sources query_terms [] of
           Inl e \<Rightarrow> Inl e
         | Inr hs \<Rightarrow> Inr (take 3 hs))"

text \<open>\<open>_extract_concept_highlights\<close>: the first occurrence of each concept name in the content.\<close>

fun concept_highlights ::
  "(string \<Rightarrow> string \<Rightarrow> string \<Rightarrow> py_exception + string) \<Rightarrow> document \<Rightarrow> concept list
     \<Rightarrow> highlight list \<Rightarrow> py_exception + highlight list" where
  "concept_highlights sub doc [] hs = Inr hs"
| "concept_highlights sub doc (c # rest) hs =
     (case content doc of
        None \<Rightarrow> concept_highlights sub doc rest hs
      | Some text \<Rightarrow>
          if text \<noteq> [] \<and> py_in (py_lower (name c)) (py_lower text)
          then (case py_find (py_lower text) (py_lower (name c)) 0 of
                  None \<Rightarrow> concept_highlights sub doc rest hs
                | Some pos \<Rightarrow>
                    (case sub (name c) (mark_template (name c))
                               (context_of text pos (length (name c))) of
                       Inl e \<Rightarrow> Inl e
                     | Inr highlighted \<Rightarrow>
                         concept_highlights sub doc rest
                           (hs @ [\<lparr>h_source = ''concept'', h_text = highlighted,
                                   h_position = None, h_concept = Some (name c)\<rparr>])))
          else concept_highlights sub doc rest hs)"

definition extract_concept_highlights ::
  "(string \<Rightarrow> string \<Rightarrow> string \<Rightarrow> py_exception + string) \<Rightarrow> document \<Rightarrow> concept list
     \<Rightarrow> py_exception + highlight list" where
  "extract_concept_highlights sub doc cs =
     (case concept_highlights sub doc cs [] of
        Inl e \<Rightarrow> Inl e
      | Inr hs \<Rightarrow> Inr (take 3 hs))"

subsection \<open>The keyword retriever\<close>

text \<open>
  The dictionary \<open>doc_similarities\<close>: the loop over \<open>enumerate(self.doc_ids)\<close> reads
  \<open>similarities[i]\<close>, which raises when there are fewer similarities than ids; a later
  entry for the same id replaces an earlier one.
\<close>

definition similarity_map :: "int list \<Rightarrow> real list \<Rightarrow> (int \<rightharpoonup> real) option" where
  "similarity_map ids sims =
     (if length sims < length ids then None else Some (map_of (rev (zip ids sims))))"

definition keyword_result :: "document \<Rightarrow> real \<Rightarrow> highlight list \<Rightarrow> highlight result" where
  "keyword_result doc s hs =
     \<lparr>res_document = doc, score = s, search_type = ''keyword'', highlights = hs,
      search_methods = None, matched_concepts = None\<rparr>"

text \<open>
  The loop that ranks by \<open>_calculate_simple_relevance\<close>: it runs when there is no index,
  and in the \<open>except\<close> branch, where it appends to what the \<open>try\<close> block had collected.
  Nothing catches an exception of \<open>_extract_highlights\<close> here.
\<close>

fun simple_loop ::
  "(string \<Rightarrow> string \<Rightarrow> string \<Rightarrow> py_exception + string) \<Rightarrow> string \<Rightarrow> document list
     \<Rightarrow> highlight result list \<Rightarrow> py_exception + highlight result list" where
  "simple_loop sub query [] results = Inr results"
| "simple_loop sub query (doc # rest) results =
     (case extract_highlights sub doc query of
        Inl e \<Rightarrow> Inl e
      | Inr hs \<Rightarrow>
          simple_loop sub query rest
            (results @ [keyword_result doc (calculate_simple_relevance doc query) hs]))"

text \<open>
  The loop of the \<open>try\<close> block, with the minimum threshold. It returns what it has
  collected and whether \<open>_extract_highlights\<close> raised.
\<close>

fun tfidf_loop ::
  "(string \<Rightarrow> string \<Rightarrow> string \<Rightarrow> py_exception + string) \<Rightarrow> string \<Rightarrow> (int \<rightharpoonup> real)
     \<Rightarrow> document list \<Rightarrow> highlight result list \<Rightarrow> highlight result list \<times> bool" where
  "tfidf_loop sub query doc_similarities [] results = (results, False)"
| "tfidf_loop sub query doc_similarities (doc # rest) results =
     (let similarity = (case doc_similarities (doc_id doc) of Some v \<Rightarrow> v | None \<Rightarrow> 0.0)
      in if similarity > 0.01
         then (case extract_highlights sub doc query of
                 Inl e \<Rightarrow> (results, True)
               | Inr hs \<Rightarrow>
                   tfidf_loop sub query doc_similarities rest
                     (results @ [keyword_result doc similarity hs]))
         else tfidf_loop sub query doc_similarities rest results)"

definition keyword_search ::
  "'f collaborators \<Rightarrow> search_engine \<Rightarrow> string \<Rightarrow> 'f \<Rightarrow> int
     \<Rightarrow> py_exception + highlight result list" where
  "keyword_search ext eng query filters limit =
     (let docs = candidates ext query filters limit;
          ranked =
            (if tfidf_built eng
             then (case similarities ext query of
                     None \<Rightarrow> simple_loop (re_sub ext) query docs []
                   | Some sims \<Rightarrow>
                       (case similarity_map (doc_ids eng) sims of
                          None \<Rightarrow> simple_loop (re_sub ext) query docs []
                        | Some doc_similarities \<Rightarrow>
                            (case tfidf_loop (re_sub ext) query doc_similarities docs [] of
                               (results, True) \<Rightarrow> simple_loop (re_sub ext) query docs results
                             | (results, False) \<Rightarrow> Inr results)))
             else simple_loop (re_sub ext) query docs [])
      in case ranked of
           Inl e \<Rightarrow> Inl e
         | Inr results \<Rightarrow> Inr (sort_by_score results))"

text \<open>What a call hands back to its caller: nothing when it raises.\<close>

fun returned :: "py_exception + 'a list \<Rightarrow> 'a list" where
  "returned (Inl e) = []"
| "returned (Inr xs) = xs"

subsection \<open>The semantic retriever\<close>

text \<open>The slice \<open>xs[:n]\<close>; a negative \<open>n\<close> counts from the end.\<close>

definition py_slice_to :: "'a list \<Rightarrow> int \<Rightarrow> 'a list" where
  "py_slice_to xs n = (if 0 \<le> n then take (nat n) xs else take (nat (int (length xs) + n)) xs)"

text \<open>
  The loop over the documents found; the whole body of \<open>_semantic_search\<close> is under
  \<open>try\<close>, so an exception of the highlight extraction ends the loop and keeps what was
  collected.
\<close>

fun semantic_loop ::
  "(string \<Rightarrow> string \<Rightarrow> string \<Rightarrow> py_exception + string) \<Rightarrow> string \<Rightarrow> (int \<rightharpoonup> real)
     \<Rightarrow> document list \<Rightarrow> highlight result list \<Rightarrow> highlight result list" where
  "semantic_loop sub query doc_similarities [] results = results"
| "semantic_loop sub query doc_similarities (doc # rest) results =
     (case extract_highlights sub doc query of
        Inl e \<Rightarrow> results
      | Inr hs \<Rightarrow>
          semantic_loop sub query doc_similarities rest
            (results @ [\<lparr>res_document = doc,
                          score = (case doc_similarities (doc_id doc) of
                                     Some v \<Rightarrow> v | None \<Rightarrow> 0.0),
                          search_type = ''semantic'', highlights = hs,
                          search_methods = None, matched_concepts = None\<rparr>]))"

definition semantic_search ::
  "'f collaborators \<Rightarrow> search_engine \<Rightarrow> string \<Rightarrow> 'f \<Rightarrow> int \<Rightarrow> highlight result list" where
  "semantic_search ext eng query filters limit =
     (if \<not> embedding_model eng \<or> document_embeddings eng = [] then []
      else sort_by_score
        (case semantic_similarity ext query of
           None \<Rightarrow> []
         | Some similarity_to \<Rightarrow>
             (let sims = sort_key (\<lambda>(i, s). - s)
                           (map (\<lambda>i. (i, similarity_to i)) (document_embeddings eng));
                  top_doc_ids = map fst (filter (\<lambda>(i, s). s > 0.1) (py_slice_to sims (limit * 2)))
              in if top_doc_ids = [] then []
                 else semantic_loop (re_sub ext) query (map_of (rev sims))
                        (documents_by_id ext top_doc_ids filters) [])))"

subsection \<open>The concept retriever\<close>

text \<open>
  The loop over the rows of the grouped query. The score multiplies the number of
  matched concepts by the average relevance, which raises \<open>TypeError\<close> on NULL.
\<close>

fun concept_loop ::
  "(string \<Rightarrow> string \<Rightarrow> string \<Rightarrow> py_exception + string) \<Rightarrow> concept list
     \<Rightarrow> (document \<times> int \<times> real option) list \<Rightarrow> highlight result list
     \<Rightarrow> py_exception + highlight result list" where
  "concept_loop sub concept_query [] results = Inr results"
| "concept_loop sub concept_query ((doc, concept_matches, avg_relevance) # rest) results =
     (case avg_relevance of
        None \<Rightarrow> Inl TypeError
      | Some avg \<Rightarrow>
          (case extract_concept_highlights sub doc concept_query of
             Inl e \<Rightarrow> Inl e
           | Inr hs \<Rightarrow>
               concept_loop sub concept_query rest
                 (results @ [\<lparr>res_document = doc,
                               score = (real_of_int concept_matches * avg)
                                         / real (length concept_query),
                               search_type = ''concept'', highlights = hs,
                               search_methods = None,
                               matched_concepts = Some concept_matches\<rparr>])))"

definition concept_search ::
  "'f collaborators \<Rightarrow> string \<Rightarrow> 'f \<Rightarrow> int \<Rightarrow> py_exception + highlight result list" where
  "concept_search ext query filters limit =
     (let concept_query = matching_concepts ext query
      in if concept_query = [] then Inr []
         else (case concept_loop (re_sub ext) concept_query
                      (concept_documents ext (map concept_id concept_query) filters limit) [] of
                 Inl e \<Rightarrow> Inl e
               | Inr results \<Rightarrow> Inr (sort_by_score results)))"

subsection \<open>The search\<close>

datatype event = Index_build | Keyword_retriever | Semantic_retriever | Concept_retriever

text \<open>
  One of the three steps of \<open>search_documents\<close>: when the mode asks for the retriever, it
  is called and its results are appended; an exception ends the search.
\<close>

definition run_retriever ::
  "bool \<Rightarrow> event \<Rightarrow> (py_exception + highlight result list)
     \<Rightarrow> (py_exception + highlight result list) \<times> event list
     \<Rightarrow> (py_exception + highlight result list) \<times> event list" where
  "run_retriever wanted ev retrieved so_far =
     (case so_far of
        (Inl e, calls) \<Rightarrow> (Inl e, calls)
      | (Inr results, calls) \<Rightarrow>
          if wanted
          then (case retrieved of
                  Inl e \<Rightarrow> (Inl e, calls @ [ev])
                | Inr found_now \<Rightarrow> (Inr (results @ found_now), calls @ [ev]))
          else (Inr results, calls))"

text \<open>
  \<open>SearchEngine.search_documents\<close>: the results, or the exception that left it, and the
  retrievers that were called, in order.
\<close>

definition search_documents ::
  "'f collaborators \<Rightarrow> search_engine \<Rightarrow> string \<Rightarrow> string \<Rightarrow> 'f \<Rightarrow> int
     \<Rightarrow> (py_exception + highlight result list) \<times> event list" where
  "search_documents ext eng query stype filters limit =
     (if py_strip query = [] then (Inr [], [])
      else
        (let step1 = run_retriever (stype \<in> {''keyword'', ''hybrid''}) Keyword_retriever
                       (keyword_search ext eng query filters limit) (Inr [], []);
             step2 = run_retriever (stype \<in> {''semantic'', ''hybrid''} \<and> embedding_model eng)
                       Semantic_retriever
                       (Inr (semantic_search ext eng query filters limit)) step1;
             step3 = run_retriever (stype \<in> {''concept'', ''hybrid''}) Concept_retriever
                       (concept_search ext query filters limit) step2
         in case step3 of
              (Inl e, calls) \<Rightarrow> (Inl e, calls)
            | (Inr results, calls) \<Rightarrow>
                (Inr (py_slice_to (merge_search_results results stype) limit), calls)))"

section \<open>The search endpoint (backend/api/search.py)\<close>

text \<open>The query string of the request: each parameter is absent or a string.\<close>

record search_args =
  arg_q :: "string option"
  arg_type :: "string option"
  arg_limit :: "string option"
  arg_file_type :: "string option"
  arg_start_date :: "string option"
  arg_end_date :: "string option"
  arg_concepts :: "string option"
  arg_min_words :: "string option"
  arg_max_words :: "string option"

text \<open>The dictionary \<open>filters\<close>, one field for each key it may hold.\<close>

record 'd search_filters =
  f_file_type :: "string option"
  f_date_range :: "('d option \<times> 'd option) option"
  f_concepts :: "int list option"
  f_min_word_count :: "int option"
  f_max_word_count :: "int option"

text \<open>\<open>s.split(',')\<close>.\<close>

fun split_on :: "char \<Rightarrow> string \<Rightarrow> string list" where
  "split_on c [] = [[]]"
| "split_on c (x # xs) =
     (if x = c then [] # split_on c xs
      else (case split_on c xs of w # ws \<Rightarrow> (x # w) # ws | [] \<Rightarrow> [[x]]))"

text \<open>
  \<open>request.args.get(key, default, type=int)\<close>: the default when the parameter is absent
  or is not an integer. \<open>to_int\<close> is Python's \<open>int\<close> on a string.
\<close>

definition int_arg :: "(string \<Rightarrow> int option) \<Rightarrow> string option \<Rightarrow> int option \<Rightarrow> int option" where
  "int_arg to_int a dflt = (case a of None \<Rightarrow> dflt
                            | Some s \<Rightarrow> (case to_int s of None \<Rightarrow> dflt | Some n \<Rightarrow> Some n))"

text \<open>
  One date of the range: \<open>datetime.fromisoformat\<close> raises \<open>ValueError\<close> on a string it
  cannot read; an absent or empty parameter is skipped.
\<close>

definition date_arg :: "(string \<Rightarrow> 'd option) \<Rightarrow> string option \<Rightarrow> py_exception + 'd option" where
  "date_arg fromisoformat a =
     (if truthy a
      then (case a of
              Some s \<Rightarrow> (case fromisoformat s of None \<Rightarrow> Inl ValueError | Some d \<Rightarrow> Inr (Some d))
            | None \<Rightarrow> Inr None)
      else Inr None)"

text \<open>The statements that fill \<open>filters\<close>, in the order of the source.\<close>

definition parse_filters ::
  "(string \<Rightarrow> 'd option) \<Rightarrow> (string \<Rightarrow> int option) \<Rightarrow> search_args
     \<Rightarrow> py_exception + 'd search_filters" where
  "parse_filters fromisoformat to_int args =
     (let file_type = (if truthy (arg_file_type args) then arg_file_type args else None);
          concept_ids = (if truthy (arg_concepts args)
                         then (case arg_concepts args of
                                 Some s \<Rightarrow> those (map to_int (split_on CHR '','' s))
                               | None \<Rightarrow> None)
                         else None);
          min_words = int_arg to_int (arg_min_words args) None;
          max_words = int_arg to_int (arg_max_words args) None;
          rest = (\<lambda>date_range.
                    \<lparr>f_file_type = file_type, f_date_range = date_range,
                     f_concepts = concept_ids,
                     f_min_word_count = (if min_words = Some 0 then None else min_words),
                     f_max_word_count = (if max_words = Some 0 then None else max_words)\<rparr>)
      in if truthy (arg_start_date args) \<or> truthy (arg_end_date args)
         then (case date_arg fromisoformat (arg_start_date args) of
                 Inl e \<Rightarrow> Inl e
               | Inr start \<Rightarrow>
                   (case date_arg fromisoformat (arg_end_date args) of
                      Inl e \<Rightarrow> Inl e
                    | Inr end_date \<Rightarrow> Inr (rest (Some (start, end_date)))))
         else Inr (rest None))"

record 'd search_reply =
  reply_query :: string
  reply_search_type :: string
  reply_total_results :: nat
  reply_results :: "highlight result list"
  reply_filters_applied :: "'d search_filters"

definition q_required :: string where
  "q_required = ''Query parameter '' @ [char_of (34 :: nat)] @ ''q'' @ [char_of (34 :: nat)] @ '' is required''"

text \<open>
  The view \<open>search_documents\<close>. \<open>global_engine\<close> is the module's \<open>search_engine\<close>,
  created on first use from the documents of the database; \<open>make_engine\<close> is the
  constructor applied to them. The whole body runs under \<open>try\<close>; any exception gives
  the status 500 with "Search failed". The model returns the response, the module's
  engine afterwards, and the index builds and retriever calls that were made.
\<close>

definition api_search_documents ::
  "(string \<Rightarrow> 'd option) \<Rightarrow> (string \<Rightarrow> int option)
     \<Rightarrow> 'd search_filters collaborators \<Rightarrow> (py_exception + search_engine)
     \<Rightarrow> search_engine option \<Rightarrow> search_args
     \<Rightarrow> 'd search_reply response \<times> search_engine option \<times> event list" where
  "api_search_documents fromisoformat to_int ext make_engine global_engine args =
     (let query = py_strip (case arg_q args of None \<Rightarrow> [] | Some s \<Rightarrow> s);
          stype = (case arg_type args of None \<Rightarrow> ''hybrid'' | Some t \<Rightarrow> t);
          limit = (case int_arg to_int (arg_limit args) (Some 20) of Some n \<Rightarrow> n | None \<Rightarrow> 20)
      in case parse_filters fromisoformat to_int args of
           Inl e \<Rightarrow> (Error_response ''Search failed'' 500, global_engine, [])
         | Inr filters \<Rightarrow>
             if query = [] then (Error_response q_required 400, global_engine, [])
             else
               (case (case global_engine of
                        Some eng \<Rightarrow> Inr (eng, [])
                      | None \<Rightarrow> (case make_engine of
                                   Inl e \<Rightarrow> Inl e
                                 | Inr eng \<Rightarrow> Inr (eng, [Index_build]))) of
                  Inl e \<Rightarrow> (Error_response ''Search failed'' 500, global_engine, [Index_build])
                | Inr (eng, created) \<Rightarrow>
                    (case search_documents ext eng query stype filters limit of
                       (Inl e, calls) \<Rightarrow>
                         (Error_response ''Search failed'' 500, Some eng, created @ calls)
                     | (Inr results, calls) \<Rightarrow>
                         (Ok_200 \<lparr>reply_query = query, reply_search_type = stype,
                                  reply_total_results = length results,
                                  reply_results = results,
                                  reply_filters_applied = filters\<rparr>,
                          Some eng, created @ calls))))"

subsection \<open>Example collaborators\<close>

text \<open>
  A stand-in for \<open>re.sub\<close> that agrees with the library on the templates of the
  examples below. The library raises \<open>re.error\<close> ("bad escape") on a template in which
  a backslash is followed by an ASCII letter other than a, b, f, g, n, r, t and v; a
  template without a backslash is inserted as it is, for every occurrence of the term in
  either case.
\<close>

definition ascii_letter :: "char \<Rightarrow> bool" where
  "ascii_letter c = (let n = (of_char c :: nat) in (65 \<le> n \<and> n \<le> 90) \<or> (97 \<le> n \<and> n \<le> 122))"

fun bad_escape :: "string \<Rightarrow> bool" where
  "bad_escape (b # c # rest) =
     (if b = CHR 0x5C then (ascii_letter c \<and> c \<notin> set ''abfgnrtv'') \<or> bad_escape rest
      else bad_escape (c # rest))"
| "bad_escape rest = False"

function replace_all :: "string \<Rightarrow> string \<Rightarrow> string \<Rightarrow> string" where
  "replace_all t template text =
     (if text = [] then []
      else if t \<noteq> [] \<and> prefix (py_lower t) (py_lower text)
           then template @ replace_all t template (drop (length t) text)
           else hd text # replace_all t template (tl text))"
  by pat_completeness auto
termination
  by (relation "measure (\<lambda>(t, template, text). length text)") auto

declare replace_all.simps [simp del]

definition example_re_sub :: "string \<Rightarrow> string \<Rightarrow> string \<Rightarrow> py_exception + string" where
  "example_re_sub t template text =
     (if bad_escape template then Inl Re_error else Inr (replace_all t template text))"

definition doc_with :: "int \<Rightarrow> string \<Rightarrow> document" where
  "doc_with i c = \<lparr>doc_id = i, title = Some ''Notes'', content = Some c, summary = None,
                   processing_status = ''completed''\<rparr>"

text \<open>
  Documents 1 and 2 were indexed; document 3 was completed after the index was built.
  The vectoriser refuses a corpus of one document.
\<close>

definition example_ext :: "unit search_filters collaborators" where
  "example_ext =
     \<lparr>candidates = (\<lambda>q f l. [doc_with 1 ''usability of menus'', doc_with 2 ''menus and forms'',
                              doc_with 3 ''usability testing'']),
      similarities = (\<lambda>q. Some [0.7, 0.0]),
      re_sub = example_re_sub,
      semantic_similarity = (\<lambda>q. None),
      documents_by_id = (\<lambda>ids f. []),
      matching_concepts = (\<lambda>q. []),
      concept_documents = (\<lambda>ids f l. [])\<rparr>"

definition two_documents :: "string list \<Rightarrow> bool" where
  "two_documents corpus = (2 \<le> length corpus)"

definition example_engine :: "py_exception + search_engine" where
  "example_engine = new_search_engine False two_documents (\<lambda>t. True)
                      [doc_with 1 ''usability of menus'', doc_with 2 ''menus and forms'']"

definition indexed_engine :: search_engine where
  "indexed_engine = \<lparr>embedding_model = False, tfidf_built = True, doc_ids = [1, 2],
                     document_embeddings = []\<rparr>"

text \<open>An engine created on an empty database: no index, no embeddings.\<close>

definition empty_engine :: search_engine where
  "empty_engine = \<lparr>embedding_model = False, tfidf_built = False, doc_ids = [],
                   document_embeddings = []\<rparr>"

text \<open>A document about regular expressions, and the query that finds it.\<close>

definition backslash_d :: string where
  "backslash_d = [CHR 0x5C, CHR ''d'']"

definition regex_doc :: document where
  "regex_doc = \<lparr>doc_id = 7, title = Some (''digits with '' @ backslash_d),
                content = Some (backslash_d @ '' matches a digit''), summary = None,
                processing_status = ''completed''\<rparr>"

definition regex_ext :: "unit search_filters collaborators" where
  "regex_ext = example_ext\<lparr>candidates := (\<lambda>q f l. [regex_doc])\<rparr>"

definition no_filters :: "unit search_filters" where
  "no_filters = \<lparr>f_file_type = None, f_date_range = None, f_concepts = None,
                 f_min_word_count = None, f_max_word_count = None\<rparr>"

definition example_dates :: "string \<Rightarrow> unit option" where
  "example_dates s = (if s = ''2024-01-01'' then Some () else None)"

definition example_ints :: "string \<Rightarrow> int option" where
  "example_ints s = (if s = ''5'' then Some 5 else None)"

definition blank_request :: search_args where
  "blank_request = \<lparr>arg_q = Some ''  '', arg_type = None, arg_limit = None,
                    arg_file_type = None, arg_start_date = None, arg_end_date = None,
                    arg_concepts = None, arg_min_words = None, arg_max_words = None\<rparr>"

section \<open>Concept similarity\<close>

lemma py_in_iff: "py_in t s \<longleftrightarrow> (\<exists>a b. s = a @ t @ b)"
proof (induction s)
  case Nil
  then show ?case by auto
next
  case (Cons c cs)
  show ?case
  proof
    assume "py_in t (c # cs)"
    then consider "prefix t (c # cs)" | "py_in t cs" by auto
    then show "\<exists>a b. c # cs = a @ t @ b"
    proof cases
      case 1
      then obtain b where "c # cs = t @ b" by (auto simp: prefix_def)
      then have "c # cs = [] @ t @ b" by simp
      then show ?thesis by blast
    next
      case 2
      with Cons.IH obtain a b where "cs = a @ t @ b" by blast
      then have "c # cs = (c # a) @ t @ b" by simp
      then show ?thesis by blast
    qed
  next
    assume "\<exists>a b. c # cs = a @ t @ b"
    then obtain a b where ab: "c # cs = a @ t @ b" by blast
    show "py_in t (c # cs)"
    proof (cases a)
      case Nil
      with ab have "prefix t (c # cs)" by (simp add: prefix_def)
      then show ?thesis by simp
    next
      case (Cons x a')
      with ab have "cs = a' @ t @ b" by simp
      with Cons.IH have "py_in t cs" by blast
      then show ?thesis by simp
    qed
  qed
qed

lemma similarity_as_specified:
  "calculate_concept_similarity db c1 c2 = spec_similarity db c1 c2"
proof -
  have j: "\<And>A B :: string set. (if A \<noteq> {} \<and> B \<noteq> {}
             then 0 + real (card (A \<inter> B)) / real (card (A \<union> B)) * 0.4 else 0)
          = spec_jaccard A B * 0.4"
    by (auto simp: spec_jaccard_def)
  show ?thesis
    unfolding calculate_concept_similarity_def spec_similarity_def Let_def j
      spec_co_occurrence_def
    by (simp add: min.commute)
qed

text \<open>
  C4 (as amended). For every pair of concepts the similarity is the Jaccard similarity of
  the whitespace-tokenised lower-case names times 0.4, plus 0.3 when the categories are
  equal, plus the share of common documents (their number over the larger of the two
  document counts, 0 when there is none) times 0.3, capped at 1; on the example pair
  the value is exactly 19/30, about 0.6333.
\<close>

theorem calculate_concept_similarity_formula:
  "calculate_concept_similarity db c1 c2 =
     min 1 (spec_jaccard (set (py_split (py_lower (name c1))))
                         (set (py_split (py_lower (name c2)))) * 0.4
            + (if category c1 = category c2 then 0.3 else 0)
            + spec_co_occurrence (map doc_id (documents_of db c1))
                                 (map doc_id (documents_of db c2)) * 0.3)
   \<and> calculate_concept_similarity example_kb concept_A concept_B = 19 / 30"
proof
  show "calculate_concept_similarity db c1 c2 =
     min 1 (spec_jaccard (set (py_split (py_lower (name c1))))
                         (set (py_split (py_lower (name c2)))) * 0.4
            + (if category c1 = category c2 then 0.3 else 0)
            + spec_co_occurrence (map doc_id (documents_of db c1))
                                 (map doc_id (documents_of db c2)) * 0.3)"
    by (simp only: similarity_as_specified spec_similarity_def)
  show "calculate_concept_similarity example_kb concept_A concept_B = 19 / 30"
    by code_simp
qed

theorem calculate_concept_similarity_formula_witness:
  "calculate_concept_similarity example_kb concept_A concept_B
     = min 1 (1 / 3 * 0.4 + 0.3 + 2 / 3 * 0.3)"
proof -
  have "spec_jaccard (set (py_split (py_lower (name concept_A))))
                     (set (py_split (py_lower (name concept_B)))) = 1 / 3"
    by code_simp
  moreover have "spec_co_occurrence (map doc_id (documents_of example_kb concept_A))
                                    (map doc_id (documents_of example_kb concept_B)) = 2 / 3"
    by code_simp
  moreover have "category concept_A = category concept_B"
    by code_simp
  ultimately show ?thesis
    using calculate_concept_similarity_formula [of example_kb concept_A concept_B]
    by simp
qed

text \<open>
  The value the specification gives for the example pair, 0.6467, is not the value of
  its own three terms: 0.1333 + 0.3 + 0.2 is 0.6333.
\<close>

theorem calculate_concept_similarity_example_counterexample:
  "\<not> \<bar>calculate_concept_similarity example_kb concept_A concept_B - 0.6467\<bar> < 0.01"
  by code_simp

section \<open>Relation type\<close>

text \<open>
  C5. The relation type is decided by the first rule that applies, in this order:
  similarity above 0.8 gives synonym; equal categories give related; both names
  containing the block of characters "design" give related; similarity above 0.6 gives
  related; anything else is a weak relation.
\<close>

theorem determine_relation_type_rules:
  "determine_relation_type c1 c2 s =
     (if s > 0.8 then ''synonym''
      else if category c1 = category c2 then ''related''
      else if (\<exists>a b. name c1 = a @ ''design'' @ b) \<and> (\<exists>a b. name c2 = a @ ''design'' @ b)
        then ''related''
      else if s > 0.6 then ''related''
      else ''weak_relation'')"
  unfolding determine_relation_type_def py_in_iff by (rule refl)

theorem determine_relation_type_rules_witness:
  "determine_relation_type concept_A concept_B 0.9 = ''synonym''
   \<and> determine_relation_type concept_A concept_B (19 / 30) = ''related''
   \<and> determine_relation_type (concept_A\<lparr>category := None\<rparr>) concept_B 0.5 = ''weak_relation''"
proof -
  have neq: "category (concept_A\<lparr>category := None\<rparr>) \<noteq> category concept_B"
    by (simp add: concept_B_def)
  have nodesign: "\<not> (\<exists>a b. name (concept_A\<lparr>category := None\<rparr>) = a @ ''design'' @ b)"
    unfolding py_in_iff [symmetric] by code_simp
  have eq: "category concept_A = category concept_B"
    by (simp add: concept_A_def concept_B_def)
  show ?thesis
    using determine_relation_type_rules [of concept_A concept_B "0.9"]
      determine_relation_type_rules [of concept_A concept_B "19 / 30"]
      determine_relation_type_rules [of "concept_A\<lparr>category := None\<rparr>" concept_B "0.5"]
      neq nodesign eq
    by simp
qed

section \<open>Fallback lexical relevance: monotonicity and the content cap\<close>

lemma split_from_nonempty: "t \<in> set (split_from w s) \<Longrightarrow> t \<noteq> []"
  by (induction s arbitrary: w) (auto split: if_splits)

lemma py_split_nonempty: "t \<in> set (py_split s) \<Longrightarrow> t \<noteq> []"
  unfolding py_split_def by (rule split_from_nonempty)

lemma py_count_Nil: "t \<noteq> [] \<Longrightarrow> py_count [] t = 0"
  by (simp add: py_count.simps)

lemma py_in_count: "t \<noteq> [] \<Longrightarrow> py_in t s \<longleftrightarrow> 0 < py_count s t"
proof (induction s t rule: py_count.induct)
  case (1 s t)
  show ?case
  proof (cases s)
    case Nil
    with "1.prems" show ?thesis by (simp add: py_count.simps)
  next
    case (Cons c cs)
    show ?thesis
    proof (cases "prefix t s")
      case True
      with Cons "1.prems" show ?thesis by (simp add: py_count.simps [of "c # cs" t])
    next
      case False
      with Cons "1.prems" "1.IH"(2) show ?thesis by (simp add: py_count.simps [of "c # cs" t])
    qed
  qed
qed

lemma sum_list_zero: "(\<forall>x\<in>set xs. f x = (0::real)) \<Longrightarrow> sum_list (map f xs) = 0"
  by (induction xs) auto

lemma foldl_add: "foldl (\<lambda>(s::real) t. s + f t) a xs = a + sum_list (map f xs)"
  by (induction xs arbitrary: a) auto

lemma foldl_add_if:
  "foldl (\<lambda>(s::real) t. if P t then s + k else s) a xs = a + sum_list (map (\<lambda>t. if P t then k else 0) xs)"
  by (induction xs arbitrary: a) auto

lemma sum_list_eqI:
  "(\<forall>x\<in>set xs. f x = g x) \<Longrightarrow> sum_list (map f xs) = (sum_list (map g xs) :: real)"
  by (induction xs) auto

lemma title_part:
  assumes "\<forall>t\<in>set ts. t \<noteq> []"
  shows "(case title d of Some t \<Rightarrow> if t \<noteq> [] then title_loop (py_lower t) ts a else a | None \<Rightarrow> a)
         = a + sum_list (map (title_contribution d) ts)"
proof (cases "title d")
  case None
  then have "sum_list (map (title_contribution d) ts) = 0"
    by (intro sum_list_zero) (simp add: title_contribution_def)
  with None show ?thesis by simp
next
  case (Some t)
  show ?thesis
  proof (cases "t = []")
    case True
    with Some assms have "sum_list (map (title_contribution d) ts) = 0"
      by (intro sum_list_zero) (auto simp: title_contribution_def py_lower_def py_count_Nil)
    with Some True show ?thesis by simp
  next
    case False
    have "sum_list (map (\<lambda>x. if py_in x (py_lower t) then 2.0 else 0) ts)
          = sum_list (map (title_contribution d) ts)"
      using assms Some by (intro sum_list_eqI) (auto simp: title_contribution_def py_in_count)
    then have "title_loop (py_lower t) ts a = a + sum_list (map (title_contribution d) ts)"
      unfolding title_loop_def foldl_add_if by (rule arg_cong)
    with Some False show ?thesis by simp
  qed
qed

lemma summary_part:
  assumes "\<forall>t\<in>set ts. t \<noteq> []"
  shows "(case summary d of Some s \<Rightarrow> if s \<noteq> [] then summary_loop (py_lower s) ts a else a | None \<Rightarrow> a)
         = a + sum_list (map (summary_contribution d) ts)"
proof (cases "summary d")
  case None
  then have "sum_list (map (summary_contribution d) ts) = 0"
    by (intro sum_list_zero) (simp add: summary_contribution_def)
  with None show ?thesis by simp
next
  case (Some s)
  show ?thesis
  proof (cases "s = []")
    case True
    with Some assms have "sum_list (map (summary_contribution d) ts) = 0"
      by (intro sum_list_zero) (auto simp: summary_contribution_def py_lower_def py_count_Nil)
    with Some True show ?thesis by simp
  next
    case False
    have "sum_list (map (\<lambda>t. real (py_count (py_lower s) t) * 1.0) ts)
          = sum_list (map (summary_contribution d) ts)"
      using Some by (intro sum_list_eqI) (simp add: summary_contribution_def)
    then have "summary_loop (py_lower s) ts a = a + sum_list (map (summary_contribution d) ts)"
      unfolding summary_loop_def foldl_add by (rule arg_cong)
    with Some False show ?thesis by simp
  qed
qed

lemma content_part:
  assumes "\<forall>t\<in>set ts. t \<noteq> []"
  shows "(case content d of Some c \<Rightarrow> if c \<noteq> [] then content_loop (py_lower c) ts a else a | None \<Rightarrow> a)
         = a + sum_list (map (content_contribution d) ts)"
proof (cases "content d")
  case None
  then have "sum_list (map (content_contribution d) ts) = 0"
    by (intro sum_list_zero) (simp add: content_contribution_def)
  with None show ?thesis by simp
next
  case (Some c)
  show ?thesis
  proof (cases "c = []")
    case True
    with Some assms have "sum_list (map (content_contribution d) ts) = 0"
      by (intro sum_list_zero) (auto simp: content_contribution_def py_lower_def py_count_Nil)
    with Some True show ?thesis by simp
  next
    case False
    have "sum_list (map (\<lambda>t. min (real (py_count (py_lower c) t) * 0.1) 1.0) ts)
          = sum_list (map (content_contribution d) ts)"
      using Some by (intro sum_list_eqI) (simp add: content_contribution_def)
    then have "content_loop (py_lower c) ts a = a + sum_list (map (content_contribution d) ts)"
      unfolding content_loop_def foldl_add by (rule arg_cong)
    with Some False show ?thesis by simp
  qed
qed

lemma relevance_sum:
  "calculate_simple_relevance d q =
     sum_list (map (title_contribution d) (py_split (py_lower q)))
   + sum_list (map (summary_contribution d) (py_split (py_lower q)))
   + sum_list (map (content_contribution d) (py_split (py_lower q)))"
proof -
  have ne: "\<forall>t\<in>set (py_split (py_lower q)). t \<noteq> []"
    using py_split_nonempty by blast
  show ?thesis
    unfolding calculate_simple_relevance_def Let_def
    by (simp add: title_part [OF ne] summary_part [OF ne] content_part [OF ne])
qed

text \<open>
  C6. When every query term occurs in the title, in the summary and in the content of one
  document at most as often as in those of another, the fallback score of the first is at
  most that of the second. The score is the sum over the query terms of 2.0 for a term
  that occurs in the title, 1.0 for each occurrence in the summary, and 0.1 for each
  occurrence in the content; the content part of one term never exceeds 1.0, and it is
  1.0 from ten occurrences on.
\<close>

theorem simple_relevance_monotone:
  assumes "\<forall>t\<in>set (py_split (py_lower q)).
             occurrences (title d1) t \<le> occurrences (title d2) t
           \<and> occurrences (summary d1) t \<le> occurrences (summary d2) t
           \<and> occurrences (content d1) t \<le> occurrences (content d2) t"
  shows "calculate_simple_relevance d1 q \<le> calculate_simple_relevance d2 q
       \<and> calculate_simple_relevance d2 q =
           (\<Sum>t\<leftarrow>py_split (py_lower q).
              (if 0 < occurrences (title d2) t then 2.0 else 0)
              + real (occurrences (summary d2) t) * 1.0
              + content_contribution d2 t)
       \<and> (\<forall>t. content_contribution d2 t \<le> 1.0
              \<and> content_contribution d2 t \<le> real (occurrences (content d2) t) * 0.1
              \<and> (10 \<le> occurrences (content d2) t \<longrightarrow> content_contribution d2 t = 1.0))"
proof (intro conjI)
  let ?ts = "py_split (py_lower q)"
  have t: "sum_list (map (title_contribution d1) ?ts) \<le> sum_list (map (title_contribution d2) ?ts)"
    using assms by (intro sum_list_mono) (auto simp: title_contribution_def)
  have s: "sum_list (map (summary_contribution d1) ?ts) \<le> sum_list (map (summary_contribution d2) ?ts)"
    using assms by (intro sum_list_mono) (auto simp: summary_contribution_def)
  have c: "sum_list (map (content_contribution d1) ?ts) \<le> sum_list (map (content_contribution d2) ?ts)"
    using assms by (intro sum_list_mono) (auto simp: content_contribution_def min_def)
  from t s c show "calculate_simple_relevance d1 q \<le> calculate_simple_relevance d2 q"
    by (simp add: relevance_sum)
  show "calculate_simple_relevance d2 q =
           (\<Sum>t\<leftarrow>?ts. (if 0 < occurrences (title d2) t then 2.0 else 0)
              + real (occurrences (summary d2) t) * 1.0
              + content_contribution d2 t)"
    by (simp add: relevance_sum sum_list_addf title_contribution_def [abs_def]
        summary_contribution_def [abs_def])
  show "\<forall>t. content_contribution d2 t \<le> 1.0
              \<and> content_contribution d2 t \<le> real (occurrences (content d2) t) * 0.1
              \<and> (10 \<le> occurrences (content d2) t \<longrightarrow> content_contribution d2 t = 1.0)"
    by (simp add: content_contribution_def min_def)
qed

theorem simple_relevance_monotone_witness:
  "calculate_simple_relevance (usability_doc 3) ''Usability''
       \<le> calculate_simple_relevance (usability_doc 12) ''Usability''
   \<and> 10 \<le> occurrences (content (usability_doc 12)) ''usability''
   \<and> content_contribution (usability_doc 12) ''usability'' = 1.0"
proof -
  have h: "\<forall>t\<in>set (py_split (py_lower ''Usability'')).
       occurrences (title (usability_doc 3)) t \<le> occurrences (title (usability_doc 12)) t
     \<and> occurrences (summary (usability_doc 3)) t \<le> occurrences (summary (usability_doc 12)) t
     \<and> occurrences (content (usability_doc 3)) t \<le> occurrences (content (usability_doc 12)) t"
    by code_simp
  have k: "10 \<le> occurrences (content (usability_doc 12)) ''usability''"
    by code_simp
  from simple_relevance_monotone [OF h] k show ?thesis by blast
qed

section \<open>Hybrid fusion: the combined score\<close>

lemma group_insert_map:
  assumes "distinct K"
  shows "group_insert k v (map (\<lambda>k'. (k', F k')) K) =
           (if k \<in> set K then map (\<lambda>k'. (k', if k' = k then F k' @ [v] else F k')) K
            else map (\<lambda>k'. (k', F k')) K @ [(k, [v])])"
  using assms by (induction K) auto

lemma first_keys_snoc:
  "first_keys (ks @ [k]) = (if k \<in> set ks then first_keys ks else first_keys ks @ [k])"
  by (simp add: first_keys_def)

lemma first_keys_set: "set (first_keys ks) = set ks" and first_keys_distinct: "distinct (first_keys ks)"
  by (simp_all add: first_keys_def)

lemma group_by_document_snoc:
  "group_by_document (rs @ [r]) = group_insert (result_doc r) r (group_by_document rs)"
  by (simp add: group_by_document_def)

lemma group_by_document_closed:
  "group_by_document rs =
     map (\<lambda>k. (k, filter (\<lambda>r. result_doc r = k) rs)) (first_keys (map result_doc rs))"
proof (induction rs rule: rev_induct)
  case Nil
  then show ?case by (simp add: group_by_document_def first_keys_def)
next
  case (snoc r rs)
  let ?K = "first_keys (map result_doc rs)"
  let ?k = "result_doc r"
  have d: "distinct ?K" by (rule first_keys_distinct)
  have K: "set ?K = result_doc ` set rs" by (simp add: first_keys_set)
  have ins: "group_by_document (rs @ [r]) =
          (if ?k \<in> set ?K
           then map (\<lambda>k'. (k', if k' = ?k then filter (\<lambda>r. result_doc r = k') rs @ [r]
                                 else filter (\<lambda>r. result_doc r = k') rs)) ?K
           else map (\<lambda>k'. (k', filter (\<lambda>r. result_doc r = k') rs)) ?K @ [(?k, [r])])"
    unfolding group_by_document_snoc snoc.IH by (rule group_insert_map [OF d])
  show ?case
  proof (cases "?k \<in> set ?K")
    case True
    then have keys: "first_keys (map result_doc (rs @ [r])) = ?K"
      using K by (simp add: first_keys_snoc)
    have "map (\<lambda>k'. (k', if k' = ?k then filter (\<lambda>r. result_doc r = k') rs @ [r]
                                 else filter (\<lambda>r. result_doc r = k') rs)) ?K
          = map (\<lambda>k. (k, filter (\<lambda>r. result_doc r = k) (rs @ [r]))) ?K"
      by (rule map_cong) auto
    with True ins keys show ?thesis by simp
  next
    case False
    then have keys: "first_keys (map result_doc (rs @ [r])) = ?K @ [?k]"
      using K by (simp add: first_keys_snoc)
    have "\<forall>x\<in>set rs. result_doc x \<noteq> ?k"
      using False K by (metis imageI)
    then have none: "filter (\<lambda>x. result_doc x = ?k) rs = []"
      by (simp add: filter_empty_conv)
    have "map (\<lambda>k'. (k', filter (\<lambda>r. result_doc r = k') rs)) ?K
          = map (\<lambda>k. (k, filter (\<lambda>r. result_doc r = k) (rs @ [r]))) ?K"
      using False by (intro map_cong) auto
    with False ins keys none show ?thesis by simp
  qed
qed

lemma merge_group_doc:
  assumes "\<forall>r\<in>set g. result_doc r = k"
  shows "\<forall>m\<in>set (merge_group g). result_doc m = k"
  using assms by (cases g rule: merge_group.cases) (auto simp: Let_def result_doc_def)

lemma concat_pick:
  "distinct K \<Longrightarrow>
     concat (map (\<lambda>k. if k = d then X else []) K) = (if d \<in> set K then X else [])"
  by (induction K) auto

lemma filter_merged:
  "filter (\<lambda>m. result_doc m = d)
          (concat (map (\<lambda>(doc_id, doc_result_list). merge_group doc_result_list)
                       (group_by_document rs)))
   = merge_group (filter (\<lambda>r. result_doc r = d) rs)"
proof -
  let ?K = "first_keys (map result_doc rs)"
  let ?g = "\<lambda>k. filter (\<lambda>r. result_doc r = k) rs"
  have each: "filter (\<lambda>m. result_doc m = d) (merge_group (?g k))
              = (if k = d then merge_group (?g d) else [])" for k
  proof -
    have *: "\<forall>m\<in>set (merge_group (?g k)). result_doc m = k"
      by (rule merge_group_doc) simp
    show ?thesis
    proof (cases "k = d")
      case True
      with * have "filter (\<lambda>m. result_doc m = d) (merge_group (?g d)) = merge_group (?g d)"
        by (simp only: filter_id_conv)
      with True show ?thesis by simp
    next
      case False
      with * have "filter (\<lambda>m. result_doc m = d) (merge_group (?g k)) = []"
        by (simp only: filter_empty_conv) metis
      with False show ?thesis by simp
    qed
  qed
  have "concat (map (\<lambda>(doc_id, doc_result_list). merge_group doc_result_list)
                       (group_by_document rs))
        = concat (map (\<lambda>k. merge_group (?g k)) ?K)"
    unfolding group_by_document_closed by (simp add: comp_def)
  then have "filter (\<lambda>m. result_doc m = d)
          (concat (map (\<lambda>(doc_id, doc_result_list). merge_group doc_result_list)
                       (group_by_document rs)))
        = concat (map (\<lambda>k. filter (\<lambda>m. result_doc m = d) (merge_group (?g k))) ?K)"
    by (simp only: filter_concat map_map comp_def)
  also have "\<dots> = concat (map (\<lambda>k. if k = d then merge_group (?g d) else []) ?K)"
    by (simp only: each)
  also have "\<dots> = (if d \<in> set ?K then merge_group (?g d) else [])"
    by (rule concat_pick) (rule first_keys_distinct)
  also have "\<dots> = merge_group (?g d)"
  proof (cases "d \<in> set ?K")
    case True
    then show ?thesis by simp
  next
    case False
    then have "\<forall>x\<in>set rs. result_doc x \<noteq> d"
      unfolding first_keys_set by (metis imageI set_map)
    then have "?g d = []" by (simp add: filter_empty_conv)
    with False show ?thesis by simp
  qed
  finally show ?thesis .
qed

lemma sort_by_score_short: "length xs \<le> 1 \<Longrightarrow> sort_by_score xs = xs"
  by (cases xs) (auto simp: sort_by_score_def)

lemma length_merge_group: "length (merge_group g) \<le> 1"
  by (cases g rule: merge_group.cases) (auto simp: Let_def)

lemma filter_merge_search_results:
  "filter (\<lambda>m. result_doc m = d) (merge_search_results rs ''hybrid'')
   = merge_group (filter (\<lambda>r. result_doc r = d) rs)"
proof -
  have "filter (\<lambda>m. result_doc m = d) (merge_search_results rs ''hybrid'')
        = sort_by_score (merge_group (filter (\<lambda>r. result_doc r = d) rs))"
    unfolding merge_search_results_def sort_by_score_def
    by (simp add: filter_sort filter_merged)
  then show ?thesis
    using sort_by_score_short [OF length_merge_group] by simp
qed

lemma merge_group_many:
  assumes "1 < length g"
  shows "\<exists>m. merge_group g = [m]
           \<and> score m = (\<Sum>r\<leftarrow>g. score r * mode_weight (search_type r))
                        + real (card (set (map search_type g))) * 0.1
           \<and> search_type m = ''hybrid''"
proof -
  from assms obtain r r' rs where g: "g = r # r' # rs"
    by (cases g rule: merge_group.cases) auto
  show ?thesis
    unfolding g by (simp add: Let_def foldl_add)
qed

text \<open>
  C1 (as amended). In hybrid mode the results are grouped by document id. A document with
  exactly one result keeps that result, score included. A document with more than one
  result gets one merged result whose score is the sum over its results of score times
  mode weight, plus 0.1 for each distinct mode among them; the weight is 0.4 for keyword,
  0.4 for semantic, 0.2 for concept and 0.3 for any other tag. A document found by the
  keyword retriever with score 0.5 and by the concept retriever with score 0.3 gets
  0.5 * 0.4 + 0.3 * 0.2 + 2 * 0.1 = 0.46.
\<close>

theorem merge_search_results_scores:
  "(filter (\<lambda>r. result_doc r = d) results = [r] \<longrightarrow>
      filter (\<lambda>m. result_doc m = d) (merge_search_results results ''hybrid'') = [r])
   \<and> (1 < length (filter (\<lambda>r. result_doc r = d) results) \<longrightarrow>
        (\<exists>m. filter (\<lambda>m. result_doc m = d) (merge_search_results results ''hybrid'') = [m]
           \<and> score m = (\<Sum>r\<leftarrow>filter (\<lambda>r. result_doc r = d) results.
                            score r * mode_weight (search_type r))
                        + real (card (set (map search_type (filter (\<lambda>r. result_doc r = d) results)))) * 0.1
           \<and> search_type m = ''hybrid''))
   \<and> mode_weight ''keyword'' = 0.4 \<and> mode_weight ''semantic'' = 0.4
   \<and> mode_weight ''concept'' = 0.2
   \<and> (t \<notin> {''keyword'', ''semantic'', ''concept''} \<longrightarrow> mode_weight t = 0.3)
   \<and> map score (merge_search_results fusion_example ''hybrid'') = [0.46]
   \<and> map score (merge_search_results [found 1 0.5 ''keyword''] ''hybrid'') = [0.5]"
proof (intro conjI impI)
  show "filter (\<lambda>m. result_doc m = d) (merge_search_results results ''hybrid'') = [r]"
    if "filter (\<lambda>r. result_doc r = d) results = [r]"
    using that by (simp add: filter_merge_search_results)
  show "\<exists>m. filter (\<lambda>m. result_doc m = d) (merge_search_results results ''hybrid'') = [m]
           \<and> score m = (\<Sum>r\<leftarrow>filter (\<lambda>r. result_doc r = d) results.
                            score r * mode_weight (search_type r))
                        + real (card (set (map search_type (filter (\<lambda>r. result_doc r = d) results)))) * 0.1
           \<and> search_type m = ''hybrid''"
    if "1 < length (filter (\<lambda>r. result_doc r = d) results)"
    unfolding filter_merge_search_results by (rule merge_group_many [OF that])
  show "mode_weight ''keyword'' = 0.4" "mode_weight ''semantic'' = 0.4"
    "mode_weight ''concept'' = 0.2"
    by (simp_all add: mode_weight_def)
  show "mode_weight t = 0.3" if "t \<notin> {''keyword'', ''semantic'', ''concept''}"
    using that by (simp add: mode_weight_def)
  show "map score (merge_search_results fusion_example ''hybrid'') = [0.46]"
    by code_simp
  show "map score (merge_search_results [found 1 0.5 ''keyword''] ''hybrid'') = [0.5]"
    by code_simp
qed

theorem merge_search_results_scores_witness:
  "1 < length (filter (\<lambda>r. result_doc r = 1) fusion_example)
   \<and> (\<exists>m. filter (\<lambda>m. result_doc m = 1) (merge_search_results fusion_example ''hybrid'') = [m]
         \<and> score m = 0.5 * 0.4 + 0.3 * 0.2 + 2 * 0.1)
   \<and> ''lexical'' \<notin> {''keyword'', ''semantic'', ''concept''}
   \<and> mode_weight ''lexical'' = 0.3"
proof -
  have h: "1 < length (filter (\<lambda>r. result_doc r = 1) fusion_example)"
    by code_simp
  have s: "(\<Sum>r\<leftarrow>filter (\<lambda>r. result_doc r = 1) fusion_example.
              score r * mode_weight (search_type r)) = 0.5 * 0.4 + 0.3 * 0.2"
    by code_simp
  have c: "card (set (map search_type (filter (\<lambda>r. result_doc r = 1) fusion_example))) = 2"
    by code_simp
  have l: "''lexical'' \<notin> {''keyword'', ''semantic'', ''concept''}"
    by simp
  from merge_search_results_scores [of 1 fusion_example _ "''lexical''"] h s c l
  show ?thesis by auto
qed

text \<open>
  The value 0.36 of the specification's example counts the bonus of 0.1 once, where two
  distinct modes contribute.
\<close>

theorem merge_search_results_example_counterexample:
  "map score (merge_search_results fusion_example ''hybrid'') \<noteq> [0.36]"
  by code_simp

section \<open>The concept registry: upsert\<close>

lemma next_id_fresh: "next_id ids \<notin> set ids"
proof (cases "ids = []")
  case True
  then show ?thesis by simp
next
  case False
  show ?thesis
  proof
    assume "next_id ids \<in> set ids"
    then have "next_id ids \<le> Max (set ids)" by simp
    with False show False by (simp add: next_id_def)
  qed
qed

lemma find_Some_mem: "find P xs = Some c \<Longrightarrow> c \<in> set xs \<and> P c"
  by (induction xs) (auto split: if_splits)

lemma distinct_key_eq:
  "distinct (map f xs) \<Longrightarrow> x \<in> set xs \<Longrightarrow> c \<in> set xs \<Longrightarrow> f x = f c \<Longrightarrow> x = c"
  by (meson distinct_map inj_on_def)

lemma bump_frequency_map:
  assumes "distinct (map concept_id xs)" and "c \<in> set xs"
  shows "map (bump_frequency (concept_id c)) xs
         = map (\<lambda>x. if x = c then c\<lparr>frequency := frequency c + 1\<rparr> else x) xs"
proof (rule map_cong [OF refl])
  fix x assume "x \<in> set xs"
  with assms have "concept_id x = concept_id c \<longleftrightarrow> x = c"
    using distinct_key_eq [of concept_id xs x c] by auto
  then show "bump_frequency (concept_id c) x
             = (if x = c then c\<lparr>frequency := frequency c + 1\<rparr> else x)"
    by (auto simp: bump_frequency_def)
qed

lemma bump_keeps_id: "concept_id (bump_frequency i x) = concept_id x"
  and bump_keeps_name: "name (bump_frequency i x) = name x"
  by (simp_all add: bump_frequency_def)

lemma find_map_bump:
  "find (\<lambda>x. name x = n) (map (bump_frequency i) xs)
   = map_option (bump_frequency i) (find (\<lambda>x. name x = n) xs)"
  by (induction xs) (auto simp: bump_keeps_name)

lemma concepts_save_concept:
  "concepts (fst (save_concept d db cd)) =
     (case find_concept_by_name db (cd_name cd) of
        None \<Rightarrow> concepts db @
                 [\<lparr>concept_id = next_id (map concept_id (concepts db)), name = cd_name cd,
                   description = Some (take 500 (context_or_empty cd)),
                   category = cd_category cd, frequency = 1\<rparr>]
      | Some c \<Rightarrow> map (bump_frequency (concept_id c)) (concepts db))"
  by (simp add: save_concept_def Let_def split: option.splits prod.splits)

lemma snd_save_concept:
  "snd (save_concept d db cd) =
     (case find_concept_by_name db (cd_name cd) of
        None \<Rightarrow> next_id (map concept_id (concepts db))
      | Some c \<Rightarrow> concept_id c)"
  by (simp add: save_concept_def Let_def split: option.splits prod.splits)

lemma save_concept_existing:
  assumes ids: "distinct (map concept_id (concepts db))"
    and f: "find_concept_by_name db (cd_name cd) = Some c"
  shows "distinct (map concept_id (concepts (fst (save_concept d db cd))))"
    and "map name (concepts (fst (save_concept d db cd))) = map name (concepts db)"
    and "find_concept_by_name (fst (save_concept d db cd)) (cd_name cd)
         = Some (c\<lparr>frequency := frequency c + 1\<rparr>)"
proof -
  have eq: "concepts (fst (save_concept d db cd)) = map (bump_frequency (concept_id c)) (concepts db)"
    using f by (simp add: concepts_save_concept)
  have idmap: "map concept_id (map (bump_frequency (concept_id c)) (concepts db))
               = map concept_id (concepts db)"
    by (simp add: comp_def bump_keeps_id)
  show "distinct (map concept_id (concepts (fst (save_concept d db cd))))"
    unfolding eq idmap by (rule ids)
  show "map name (concepts (fst (save_concept d db cd))) = map name (concepts db)"
    unfolding eq by (simp add: comp_def bump_keeps_name)
  show "find_concept_by_name (fst (save_concept d db cd)) (cd_name cd)
         = Some (c\<lparr>frequency := frequency c + 1\<rparr>)"
    using f unfolding find_concept_by_name_def eq find_map_bump
    by (simp add: bump_frequency_def)
qed

lemma find_filter_unique:
  "distinct (map f xs) \<Longrightarrow> find (\<lambda>x. f x = n) xs = Some c \<Longrightarrow> filter (\<lambda>x. f x = n) xs = [c]"
proof (induction xs)
  case Nil
  then show ?case by simp
next
  case (Cons x xs)
  show ?case
  proof (cases "f x = n")
    case True
    with Cons.prems have "x = c" by simp
    moreover from Cons.prems have "f x \<notin> f ` set xs" by simp
    with True have "\<forall>y\<in>set xs. f y \<noteq> n" by (metis imageI)
    then have "filter (\<lambda>x. f x = n) xs = []" by (simp add: filter_empty_conv)
    ultimately show ?thesis using True by simp
  next
    case False
    with Cons show ?thesis by simp
  qed
qed

lemma save_twice:
  "fst (save_concepts_to_db db [cd, cd] d) = fst (save_concept d (fst (save_concept d db cd)) cd)"
  by (simp add: Let_def split: prod.splits)

text \<open>
  C8 (as amended). The upsert looks the concept up by its exact name. When a concept
  with that name exists, its frequency goes up by exactly 1, no row is created and the
  existing concept is returned; otherwise a concept with frequency 1 and a fresh key is
  appended. Two more upserts of the name of an existing concept of frequency 1 leave one
  row of that name, with frequency 3, and the table as long as before. The extraction
  pipeline hands over lower-cased names, and on such names the exact lookup and the
  case-insensitive lookup agree.
\<close>

theorem save_concept_upsert:
  assumes ids: "distinct (map concept_id (concepts db))"
    and names: "distinct (map name (concepts db))"
  shows "(find_concept_by_name db (cd_name cd) = Some c \<longrightarrow>
            snd (save_concept d db cd) = concept_id c
          \<and> concepts (fst (save_concept d db cd))
              = map (\<lambda>x. if x = c then c\<lparr>frequency := frequency c + 1\<rparr> else x) (concepts db))
       \<and> (find_concept_by_name db (cd_name cd) = None \<longrightarrow>
            (\<exists>c'. concepts (fst (save_concept d db cd)) = concepts db @ [c']
                 \<and> name c' = cd_name cd \<and> frequency c' = 1
                 \<and> concept_id c' \<notin> set (map concept_id (concepts db))
                 \<and> snd (save_concept d db cd) = concept_id c'))
       \<and> (find_concept_by_name db (cd_name cd) = Some c \<and> frequency c = 1 \<longrightarrow>
            filter (\<lambda>x. name x = cd_name cd) (concepts (fst (save_concepts_to_db db [cd, cd] d)))
              = [c\<lparr>frequency := 3\<rparr>]
          \<and> length (concepts (fst (save_concepts_to_db db [cd, cd] d))) = length (concepts db))
       \<and> ((\<forall>x\<in>set (concepts db). py_lower (name x) = name x) \<and> py_lower (cd_name cd) = cd_name cd \<longrightarrow>
            find_concept_by_name db (cd_name cd)
              = find (\<lambda>x. py_lower (name x) = py_lower (cd_name cd)) (concepts db))"
proof (intro conjI impI)
  assume f: "find_concept_by_name db (cd_name cd) = Some c"
  then show "snd (save_concept d db cd) = concept_id c"
    by (simp add: snd_save_concept)
  from f have "c \<in> set (concepts db)"
    unfolding find_concept_by_name_def by (blast dest: find_Some_mem)
  with ids f show "concepts (fst (save_concept d db cd))
      = map (\<lambda>x. if x = c then c\<lparr>frequency := frequency c + 1\<rparr> else x) (concepts db)"
    by (simp add: concepts_save_concept bump_frequency_map)
next
  assume f: "find_concept_by_name db (cd_name cd) = None"
  let ?c = "\<lparr>concept_id = next_id (map concept_id (concepts db)), name = cd_name cd,
             description = Some (take 500 (context_or_empty cd)),
             category = cd_category cd, frequency = 1\<rparr>"
  have "concepts (fst (save_concept d db cd)) = concepts db @ [?c]"
    using f by (simp add: concepts_save_concept)
  moreover have "concept_id ?c \<notin> set (map concept_id (concepts db))"
    using next_id_fresh [of "map concept_id (concepts db)"] by simp
  moreover have "snd (save_concept d db cd) = concept_id ?c"
    using f by (simp add: snd_save_concept)
  ultimately show "\<exists>c'. concepts (fst (save_concept d db cd)) = concepts db @ [c']
                 \<and> name c' = cd_name cd \<and> frequency c' = 1
                 \<and> concept_id c' \<notin> set (map concept_id (concepts db))
                 \<and> snd (save_concept d db cd) = concept_id c'"
    by (intro exI [of _ ?c]) simp
next
  assume a: "find_concept_by_name db (cd_name cd) = Some c \<and> frequency c = 1"
  let ?db1 = "fst (save_concept d db cd)"
  let ?db2 = "fst (save_concept d ?db1 cd)"
  from a have f: "find_concept_by_name db (cd_name cd) = Some c" and fr: "frequency c = 1"
    by simp_all
  note s1 = save_concept_existing [OF ids f, of d]
  note s2 = save_concept_existing [OF s1(1) s1(3), of d]
  have n2: "distinct (map name (concepts ?db2))"
    using names s1(2) s2(2) by simp
  have "filter (\<lambda>x. name x = cd_name cd) (concepts ?db2)
        = [c\<lparr>frequency := frequency c + 1, frequency := frequency c + 1 + 1\<rparr>]"
    using find_filter_unique [OF n2] s2(3) unfolding find_concept_by_name_def by simp
  with fr show "filter (\<lambda>x. name x = cd_name cd) (concepts (fst (save_concepts_to_db db [cd, cd] d)))
              = [c\<lparr>frequency := 3\<rparr>]"
    unfolding save_twice by simp
  have "length (map name (concepts ?db2)) = length (map name (concepts db))"
    using s1(2) s2(2) by simp
  then show "length (concepts (fst (save_concepts_to_db db [cd, cd] d))) = length (concepts db)"
    unfolding save_twice by simp
next
  assume a: "(\<forall>x\<in>set (concepts db). py_lower (name x) = name x) \<and> py_lower (cd_name cd) = cd_name cd"
  then show "find_concept_by_name db (cd_name cd)
              = find (\<lambda>x. py_lower (name x) = py_lower (cd_name cd)) (concepts db)"
    unfolding find_concept_by_name_def by (intro find_cong) auto
qed

theorem save_concept_upsert_witness:
  "find_concept_by_name ux_kb (cd_name (sighting ''ux'')) = Some ux_concept
   \<and> frequency ux_concept = 1
   \<and> concepts (fst (save_concepts_to_db ux_kb [sighting ''ux'', sighting ''ux''] 1))
       = [ux_concept\<lparr>frequency := 3\<rparr>]
   \<and> find_concept_by_name ux_kb (cd_name (sighting ''usability'')) = None
   \<and> length (concepts (fst (save_concept 1 ux_kb (sighting ''usability'')))) = 2"
proof -
  have i: "distinct (map concept_id (concepts ux_kb))" by code_simp
  have n: "distinct (map name (concepts ux_kb))" by code_simp
  have f: "find_concept_by_name ux_kb (cd_name (sighting ''ux'')) = Some ux_concept" by code_simp
  have fr: "frequency ux_concept = 1" by code_simp
  have g: "find_concept_by_name ux_kb (cd_name (sighting ''usability'')) = None" by code_simp
  have all: "filter (\<lambda>x. name x = cd_name (sighting ''ux''))
               (concepts (fst (save_concepts_to_db ux_kb [sighting ''ux'', sighting ''ux''] 1)))
             = concepts (fst (save_concepts_to_db ux_kb [sighting ''ux'', sighting ''ux''] 1))"
    by code_simp
  have l: "length (concepts ux_kb) = 1" by code_simp
  from save_concept_upsert [OF i n, of "sighting ''ux''" ux_concept 1] f fr all
  have 1: "concepts (fst (save_concepts_to_db ux_kb [sighting ''ux'', sighting ''ux''] 1))
       = [ux_concept\<lparr>frequency := 3\<rparr>]" by simp
  from save_concept_upsert [OF i n, of "sighting ''usability''" ux_concept 1] g l
  have 2: "length (concepts (fst (save_concept 1 ux_kb (sighting ''usability'')))) = 2" by auto
  from f fr g 1 2 show ?thesis by simp
qed

text \<open>
  The lookup itself does not normalise: a sighting named "UX" does not meet the stored
  concept "ux"; a second row is created and the stored frequency stays 1.
\<close>

theorem save_concept_case_counterexample:
  "py_lower (cd_name (sighting ''UX'')) = py_lower (name ux_concept)
   \<and> concepts ux_kb = [ux_concept]
   \<and> map name (concepts (fst (save_concept 1 ux_kb (sighting ''UX'')))) = [''ux'', ''UX'']
   \<and> map frequency (concepts (fst (save_concept 1 ux_kb (sighting ''UX'')))) = [1, 1]"
  by code_simp

section \<open>The invariant of the relation table\<close>

lemma unordered_pair_endpoints: "unordered_pair r = (\<lambda>(a, b). {a, b}) (endpoints r)"
  by (simp add: unordered_pair_def endpoints_def)

lemma relation_invariant_endpoints:
  "relation_invariant rels \<longleftrightarrow>
     list_all (\<lambda>(a, b). a \<noteq> b) (map endpoints rels)
     \<and> distinct (map (\<lambda>(a, b). {a, b}) (map endpoints rels))"
  by (simp add: relation_invariant_def list_all_iff endpoints_def unordered_pair_def [abs_def] comp_def)

lemma relation_invariant_cong:
  "map endpoints xs = map endpoints ys \<Longrightarrow> relation_invariant xs = relation_invariant ys"
  by (simp only: relation_invariant_endpoints)

lemma relation_invariant_append:
  "relation_invariant (xs @ ys) \<longleftrightarrow>
     relation_invariant xs \<and> relation_invariant ys
     \<and> unordered_pair ` set xs \<inter> unordered_pair ` set ys = {}"
  by (auto simp: relation_invariant_def)

lemma endpoints_add_relation:
  "map endpoints (concept_relations (add_relation db r))
   = map endpoints (concept_relations db) @ [endpoints r]"
  by (simp add: add_relation_def endpoints_def)

lemma endpoints_save_relations:
  "map endpoints (concept_relations (save_relations db rs))
   = map endpoints (concept_relations db) @ map endpoints rs"
  unfolding save_relations_def
  by (induction rs arbitrary: db) (simp_all add: endpoints_add_relation)

lemma relation_exists_iff:
  "relation_exists db a b \<longleftrightarrow> {a, b} \<in> unordered_pair ` set (concept_relations db)"
proof -
  have "\<And>r. ((concept1_id r = a \<and> concept2_id r = b) \<or> (concept1_id r = b \<and> concept2_id r = a))
            \<longleftrightarrow> unordered_pair r = {a, b}"
    by (auto simp: unordered_pair_def doubleton_eq_iff)
  then show ?thesis
    by (auto simp: relation_exists_def list_ex_iff image_iff)
qed

lemma relation_for_cases:
  "relation_for db th c other = [] \<or>
   (\<exists>r. relation_for db th c other = [r]
       \<and> endpoints r = (concept_id c, concept_id other)
       \<and> \<not> relation_exists db (concept_id c) (concept_id other))"
  by (simp add: relation_for_def Let_def endpoints_def)

lemma found_relations:
  "map endpoints (concat (map (relation_for db th c) xs))
   = map (\<lambda>other. (concept_id c, concept_id other))
         (filter (\<lambda>other. relation_for db th c other \<noteq> []) xs)"
proof (induction xs)
  case Nil
  then show ?case by simp
next
  case (Cons x xs)
  from relation_for_cases [of db th c x] show ?case
  proof
    assume "relation_for db th c x = []"
    with Cons show ?thesis by simp
  next
    assume "\<exists>r. relation_for db th c x = [r]
       \<and> endpoints r = (concept_id c, concept_id x)
       \<and> \<not> relation_exists db (concept_id c) (concept_id x)"
    with Cons show ?thesis by auto
  qed
qed

lemma found_relation_new:
  "relation_for db th c other \<noteq> [] \<Longrightarrow> \<not> relation_exists db (concept_id c) (concept_id other)"
  using relation_for_cases [of db th c other] by blast

lemma pair_with_inj: "inj (\<lambda>x::int. {a, x})"
  by (rule injI) (auto simp: doubleton_eq_iff)

lemma find_concept_relations_invariant:
  assumes ids: "distinct (map concept_id (concepts db))"
    and inv: "relation_invariant (concept_relations db)"
  shows "relation_invariant (concept_relations db @ find_concept_relations db cid th)"
proof (cases "find (\<lambda>c. concept_id c = cid) (concepts db)")
  case None
  with inv show ?thesis by (simp add: find_concept_relations_def)
next
  case (Some c)
  then have cid: "concept_id c = cid"
    by (auto dest: find_Some_iff [THEN iffD1])
  let ?others = "filter (\<lambda>c. concept_id c \<noteq> cid) (concepts db)"
  let ?new = "concat (map (relation_for db th c) ?others)"
  have new: "find_concept_relations db cid th = ?new"
    using Some by (simp add: find_concept_relations_def)
  define ys where "ys = filter (\<lambda>other. relation_for db th c other \<noteq> []) ?others"
  have ys: "map endpoints ?new = map (\<lambda>other. (concept_id c, concept_id other)) ys"
    "\<forall>other\<in>set ys. \<not> relation_exists db (concept_id c) (concept_id other)"
    unfolding ys_def by (rule found_relations) (auto dest: found_relation_new)
  have sub: "set ys \<subseteq> set ?others" unfolding ys_def by (rule filter_is_subset)
  have "distinct (map concept_id ?others)"
    using ids by (rule distinct_map_filter)
  then have dys: "distinct (map concept_id ys)"
    unfolding ys_def by (rule distinct_map_filter)
  have noself: "list_all (\<lambda>(a, b). a \<noteq> b) (map endpoints ?new)"
    unfolding ys(1) using sub cid by (auto simp: list_all_iff)
  have "map (\<lambda>(a, b). {a, b}) (map endpoints ?new) = map (\<lambda>x. {cid, x}) (map concept_id ys)"
    unfolding ys(1) by (simp add: comp_def cid)
  moreover have "distinct (map (\<lambda>x. {cid, x}) (map concept_id ys))"
    using dys pair_with_inj [of cid] by (simp add: distinct_map inj_on_def inj_def)
  ultimately have "distinct (map (\<lambda>(a, b). {a, b}) (map endpoints ?new))"
    by simp
  with noself have inv_new: "relation_invariant ?new"
    by (simp only: relation_invariant_endpoints)
  have pairs_new: "unordered_pair ` set ?new = (\<lambda>x. {cid, x}) ` concept_id ` set ys"
  proof -
    have "unordered_pair ` set ?new = set (map (\<lambda>(a, b). {a, b}) (map endpoints ?new))"
      by (simp add: unordered_pair_endpoints image_image)
    also have "\<dots> = set (map (\<lambda>x. {cid, x}) (map concept_id ys))"
      unfolding ys(1) by (simp add: comp_def cid)
    finally show ?thesis by (simp add: image_image)
  qed
  have disj: "unordered_pair ` set (concept_relations db) \<inter> unordered_pair ` set ?new = {}"
    unfolding pairs_new using ys(2) cid by (auto simp: relation_exists_iff)
  from inv inv_new disj show ?thesis
    unfolding new relation_invariant_append by simp
qed









text \<open>
  The relations found for one concept, once added, keep the invariant
  (\<open>find_concept_relations_invariant\<close>). The pipeline does not add them one concept at a
  time: it collects the relations of all the saved concepts first, so the check for an
  existing relation of B does not see the relation that was just found for A, and both
  directions of one pair are added.
\<close>

lemma collected_relations_duplicate:
  "relation_invariant (concept_relations example_kb)
   \<and> map endpoints (concept_relations
         (save_relations example_kb (collect_relations example_kb [1, 2]))) = [(1, 2), (2, 1)]
   \<and> \<not> relation_invariant (concept_relations
         (save_relations example_kb (collect_relations example_kb [1, 2])))"
  by code_simp




section \<open>Merging two concepts that exist\<close>

text \<open>
  For two different concepts that both exist, the merge answers with the primary, whose
  frequency is now the sum of the two; the secondary is gone; the documents linked to the
  primary are those that were linked to either; every relation is re-pointed by
  \<open>repoint\<close>. A relation from the secondary to itself keeps the secondary as its
  second end.
\<close>

lemma find_filter_none: "find (\<lambda>c. f c = s) (filter (\<lambda>c. f c \<noteq> s) xs) = None"
  by (induction xs) auto

lemma find_filter_other:
  "p \<noteq> s \<Longrightarrow> find (\<lambda>c. f c = p) (filter (\<lambda>c. f c \<noteq> s) xs) = find (\<lambda>c. f c = p) xs"
  by (induction xs) auto

lemma find_map_replace:
  "concept_id M = p \<Longrightarrow> find (\<lambda>c. concept_id c = p) xs = Some P \<Longrightarrow>
     find (\<lambda>c. concept_id c = p) (map (\<lambda>c. if concept_id c = p then M else c) xs) = Some M"
  by (induction xs) (auto split: if_splits)

lemma linked_ids:
  "set (map doc_id (documents_of db c))
   = {i \<in> doc_id ` set (documents db).
        \<exists>l\<in>set (document_concepts db). link_document_id l = i \<and> link_concept_id l = concept_id c}"
  by (auto simp: documents_of_def list_ex_iff)

lemma linked_after_merge:
  assumes "p \<noteq> s" and "\<forall>l\<in>set T. link_concept_id l = p"
  shows "(\<exists>l\<in>set (filter (\<lambda>l. link_concept_id l \<noteq> s) (links @ T)).
            link_document_id l = i \<and> link_concept_id l = p)
         \<longleftrightarrow> (\<exists>l\<in>set links. link_document_id l = i \<and> link_concept_id l = p)
              \<or> i \<in> link_document_id ` set T"
  using assms by (auto simp: image_iff)

lemma transferred_link_ids:
  "link_document_id ` set (transferred_links db P S)
   = set (map doc_id (documents_of db S)) - set (map doc_id (documents_of db P))"
proof -
  have "link_document_id ` set (transferred_links db P S)
        = doc_id ` set (filter (\<lambda>d. doc_id d \<notin> set (map doc_id (documents_of db P)))
                               (documents_of db S))"
    by (simp add: transferred_links_def image_image)
  also have "\<dots> = set (map doc_id (documents_of db S)) - set (map doc_id (documents_of db P))"
    by auto
  finally show ?thesis .
qed

lemma merge_rows_existing:
  assumes P: "find (\<lambda>c. concept_id c = p) (concepts db) = Some P"
    and S: "find (\<lambda>c. concept_id c = s) (concepts db) = Some S"
  shows "merge_rows db p s =
     Inr (db\<lparr>concepts := filter (\<lambda>c. concept_id c \<noteq> s)
                            (map (\<lambda>c. if concept_id c = p
                                       then P\<lparr>frequency := frequency P + frequency S\<rparr> else c)
                                 (concepts db)),
              document_concepts := filter (\<lambda>l. link_concept_id l \<noteq> s)
                                     (document_concepts db @ transferred_links db P S),
              concept_relations := map (repoint p s) (concept_relations db)\<rparr>,
          P\<lparr>frequency := frequency P + frequency S\<rparr>)"
  by (simp add: merge_rows_def get_or_404_def P S Let_def)

lemma merge_concepts_existing:
  assumes P: "find (\<lambda>c. concept_id c = p) (concepts db) = Some P"
    and S: "find (\<lambda>c. concept_id c = s) (concepts db) = Some S"
    and ne: "p \<noteq> s" "p \<noteq> 0" "s \<noteq> 0"
  shows "snd (merge_concepts db (Some p) (Some s))
           = Ok_200 (P\<lparr>frequency := frequency P + frequency S\<rparr>)"
    and "find (\<lambda>c. concept_id c = p) (concepts (fst (merge_concepts db (Some p) (Some s))))
           = Some (P\<lparr>frequency := frequency P + frequency S\<rparr>)"
    and "find (\<lambda>c. concept_id c = s) (concepts (fst (merge_concepts db (Some p) (Some s)))) = None"
    and "set (map doc_id (documents_of (fst (merge_concepts db (Some p) (Some s)))
                                       (P\<lparr>frequency := frequency P + frequency S\<rparr>)))
         = set (map doc_id (documents_of db P)) \<union> set (map doc_id (documents_of db S))"
    and "concept_relations (fst (merge_concepts db (Some p) (Some s)))
           = map (repoint p s) (concept_relations db)"
proof -
  let ?merged = "P\<lparr>frequency := frequency P + frequency S\<rparr>"
  let ?db' = "fst (merge_concepts db (Some p) (Some s))"
  have idP: "concept_id P = p" and idS: "concept_id S = s"
    using P S by (auto dest: find_Some_iff [THEN iffD1])
  have idM: "concept_id ?merged = p" by (simp add: idP)
  note rows = merge_rows_existing [OF P S]
  show "snd (merge_concepts db (Some p) (Some s)) = Ok_200 ?merged"
    using ne by (simp add: merge_concepts_def rows)
  have c': "concepts ?db' = filter (\<lambda>c. concept_id c \<noteq> s)
                            (map (\<lambda>c. if concept_id c = p then ?merged else c) (concepts db))"
    using ne by (simp add: merge_concepts_def rows)
  have l': "document_concepts ?db' = filter (\<lambda>l. link_concept_id l \<noteq> s)
                                     (document_concepts db @ transferred_links db P S)"
    using ne by (simp add: merge_concepts_def rows)
  have d': "documents ?db' = documents db"
    using ne by (simp add: merge_concepts_def rows)
  show "concept_relations ?db' = map (repoint p s) (concept_relations db)"
    using ne by (simp add: merge_concepts_def rows)
  have "find (\<lambda>c. concept_id c = p)
          (map (\<lambda>c. if concept_id c = p then ?merged else c) (concepts db)) = Some ?merged"
    using idM P by (rule find_map_replace)
  then show "find (\<lambda>c. concept_id c = p) (concepts ?db') = Some ?merged"
    unfolding c' find_filter_other [where f = concept_id, OF ne(1)] .
  show "find (\<lambda>c. concept_id c = s) (concepts ?db') = None"
    unfolding c' by (rule find_filter_none)
  have new_concept: "\<forall>l\<in>set (transferred_links db P S). link_concept_id l = p"
    by (simp add: transferred_links_def idP)
  have sub: "set (map doc_id (documents_of db S)) \<subseteq> doc_id ` set (documents db)"
    unfolding linked_ids by blast
  have "set (map doc_id (documents_of ?db' ?merged))
        = {i \<in> doc_id ` set (documents db).
             (\<exists>l\<in>set (document_concepts db). link_document_id l = i \<and> link_concept_id l = p)
             \<or> i \<in> link_document_id ` set (transferred_links db P S)}"
    unfolding linked_ids d' l' idM linked_after_merge [OF ne(1) new_concept] ..
  also have "\<dots> = set (map doc_id (documents_of db P)) \<union>
                    (set (map doc_id (documents_of db S)) - set (map doc_id (documents_of db P)))"
    unfolding transferred_link_ids linked_ids [of db P] idP using sub by blast
  finally show "set (map doc_id (documents_of ?db' ?merged))
         = set (map doc_id (documents_of db P)) \<union> set (map doc_id (documents_of db S))"
    by blast
qed

lemma repoint_self_relation:
  "concept1_id r = s \<Longrightarrow> concept2_id r = s \<Longrightarrow> endpoints (repoint p s r) = (p, s)"
  by (simp add: repoint_def endpoints_def)

section \<open>Merging: an absent concept\<close>

text \<open>
  C2. A merge in which one of the two ids is absent has to fail with NotFound and change
  nothing. The lookup \<open>get_or_404\<close> does raise NotFound, but the handler of the view
  catches it together with every other exception: the answer is the status 500 with the
  message "Internal server error". The database is left as it was. The same happens when a
  merge is repeated on the id it has absorbed.
\<close>

theorem merge_concepts_absent_id:
  "get_or_404 triangle_kb 99 = Inl NotFound
   \<and> merge_concepts triangle_kb (Some 1) (Some 99)
       = (triangle_kb, Error_response ''Internal server error'' 500)
   \<and> map concept_id (concepts (fst (merge_concepts triangle_kb (Some 1) (Some 2)))) = [1, 3]
   \<and> merge_concepts (fst (merge_concepts triangle_kb (Some 1) (Some 2))) (Some 1) (Some 2)
       = (fst (merge_concepts triangle_kb (Some 1) (Some 2)),
          Error_response ''Internal server error'' 500)"
  by code_simp

section \<open>The search: blank queries\<close>

lemma py_strip_blank: "py_strip s = [] \<longleftrightarrow> (\<forall>c\<in>set s. is_space c)"
proof
  assume "py_strip s = []"
  then have "dropWhile is_space (rev (dropWhile is_space s)) = []"
    by (simp add: py_strip_def)
  then have "\<forall>c\<in>set (dropWhile is_space s). is_space c"
    by (simp add: dropWhile_eq_Nil_conv)
  then have "dropWhile is_space s = []"
    by (metis dropWhile_eq_Nil_conv hd_dropWhile hd_in_set)
  then show "\<forall>c\<in>set s. is_space c"
    by (simp add: dropWhile_eq_Nil_conv)
next
  assume "\<forall>c\<in>set s. is_space c"
  then have d: "dropWhile is_space s = []" by (simp add: dropWhile_eq_Nil_conv)
  show "py_strip s = []" unfolding py_strip_def d by simp
qed

lemma date_arg_ok:
  assumes "\<forall>s. a = Some s \<and> s \<noteq> [] \<longrightarrow> fromisoformat s \<noteq> None"
  shows "\<exists>d. date_arg fromisoformat a = Inr d"
proof (cases a)
  case None
  then show ?thesis by (simp add: date_arg_def)
next
  case (Some s)
  show ?thesis
  proof (cases "s = []")
    case True
    with Some show ?thesis by (simp add: date_arg_def)
  next
    case False
    with Some assms obtain d where "fromisoformat s = Some d" by auto
    with Some False show ?thesis by (simp add: date_arg_def)
  qed
qed

lemma parse_filters_ok:
  assumes "\<forall>s. arg_start_date args = Some s \<and> s \<noteq> [] \<longrightarrow> fromisoformat s \<noteq> None"
    and "\<forall>s. arg_end_date args = Some s \<and> s \<noteq> [] \<longrightarrow> fromisoformat s \<noteq> None"
  shows "\<exists>filters. parse_filters fromisoformat to_int args = Inr filters"
proof -
  from date_arg_ok [OF assms(1)] obtain d1
    where d1: "date_arg fromisoformat (arg_start_date args) = Inr d1" by blast
  from date_arg_ok [OF assms(2)] obtain d2
    where d2: "date_arg fromisoformat (arg_end_date args) = Inr d2" by blast
  show ?thesis
    by (simp add: parse_filters_def Let_def d1 d2)
qed

text \<open>
  When the query parameter is absent, empty or made of whitespace only, and each date
  parameter that is given can be read as a date, the endpoint answers with the status 400
  and the message that the query is required; no index is built and no retriever is
  called. The engine's own entry point returns the empty list for such a query, again
  without calling a retriever.
\<close>

lemma blank_query_rejected:
  assumes blank: "\<forall>c\<in>set (case arg_q args of None \<Rightarrow> [] | Some s \<Rightarrow> s). is_space c"
    and start: "\<forall>s. arg_start_date args = Some s \<and> s \<noteq> [] \<longrightarrow> fromisoformat s \<noteq> None"
    and finish: "\<forall>s. arg_end_date args = Some s \<and> s \<noteq> [] \<longrightarrow> fromisoformat s \<noteq> None"
  shows "api_search_documents fromisoformat to_int ext make_engine global_engine args
           = (Error_response q_required 400, global_engine, [])
       \<and> search_documents ext eng (case arg_q args of None \<Rightarrow> [] | Some s \<Rightarrow> s) stype filters limit
           = (Inr [], [])"
proof
  from parse_filters_ok [OF start finish] obtain fs
    where fs: "parse_filters fromisoformat to_int args = Inr fs" by blast
  from blank have q: "py_strip (case arg_q args of None \<Rightarrow> [] | Some s \<Rightarrow> s) = []"
    by (simp only: py_strip_blank)
  show "api_search_documents fromisoformat to_int ext make_engine global_engine args
           = (Error_response q_required 400, global_engine, [])"
    by (simp add: api_search_documents_def Let_def fs q)
  show "search_documents ext eng (case arg_q args of None \<Rightarrow> [] | Some s \<Rightarrow> s) stype filters limit
           = (Inr [], [])"
    by (simp add: search_documents_def q)
qed

lemma blank_query_rejected_example:
  "api_search_documents example_dates example_ints example_ext example_engine None
     (blank_request\<lparr>arg_start_date := Some ''2024-01-01''\<rparr>)
   = (Error_response q_required 400, None, [])"
  by code_simp

text \<open>
  C7. A request whose query is empty or made of whitespace only has to be rejected with
  a validation error, without any retrieval. The view has the check (\<open>if not query\<close>,
  status 400), but it fills the filters first, and \<open>datetime.fromisoformat\<close> raises
  \<open>ValueError\<close> on a date it cannot read; nothing but the catch-all handler of the view
  catches it. A blank query that comes with such a start date is answered with the
  status 500 and "Search failed" instead of the validation error. No index is built and
  no retriever is called.
\<close>

theorem blank_query_bad_date:
  "py_strip ''  '' = []
   \<and> arg_q (blank_request\<lparr>arg_start_date := Some ''soon''\<rparr>) = Some ''  ''
   \<and> date_arg example_dates (Some ''soon'') = Inl ValueError
   \<and> api_search_documents example_dates example_ints example_ext example_engine None
       (blank_request\<lparr>arg_start_date := Some ''soon''\<rparr>)
     = (Error_response ''Search failed'' 500, None, [])"
  by code_simp

section \<open>The search without embeddings\<close>

lemma merge_search_results_Nil: "merge_search_results [] t = []"
  by (simp add: merge_search_results_def group_by_document_def sort_by_score_def)

lemma py_slice_to_Nil: "py_slice_to [] n = []"
  by (simp add: py_slice_to_def)

text \<open>
  Without an embedding model, or without any document embedding, the semantic retriever
  returns no result, and a search is the fusion of what the keyword and the concept
  retriever return for its mode, cut to the limit, unless one of the two raises.
\<close>

lemma search_without_embeddings:
  assumes "\<not> embedding_model eng \<or> document_embeddings eng = []"
  shows "semantic_search ext eng query filters limit = []"
    and "fst (search_documents ext eng query stype filters limit)
           = (if py_strip query = [] then Inr []
              else (case (if stype \<in> {''keyword'', ''hybrid''}
                          then keyword_search ext eng query filters limit else Inr []) of
                      Inl e \<Rightarrow> Inl e
                    | Inr kw \<Rightarrow>
                        (case (if stype \<in> {''concept'', ''hybrid''}
                               then concept_search ext query filters limit else Inr []) of
                           Inl e \<Rightarrow> Inl e
                         | Inr con \<Rightarrow>
                             Inr (py_slice_to (merge_search_results (kw @ con) stype) limit))))"
proof -
  from assms show sem: "semantic_search ext eng query filters limit = []"
    by (auto simp: semantic_search_def)
  show "fst (search_documents ext eng query stype filters limit)
           = (if py_strip query = [] then Inr []
              else (case (if stype \<in> {''keyword'', ''hybrid''}
                          then keyword_search ext eng query filters limit else Inr []) of
                      Inl e \<Rightarrow> Inl e
                    | Inr kw \<Rightarrow>
                        (case (if stype \<in> {''concept'', ''hybrid''}
                               then concept_search ext query filters limit else Inr []) of
                           Inl e \<Rightarrow> Inl e
                         | Inr con \<Rightarrow>
                             Inr (py_slice_to (merge_search_results (kw @ con) stype) limit))))"
    by (simp add: search_documents_def run_retriever_def Let_def sem
             split: sum.splits prod.splits)
qed

text \<open>
  C9. Without an embedding model the semantic retriever is skipped, and the search has
  to succeed on the other retrievers. It does not always: \<open>_extract_highlights\<close> hands
  the query term to \<open>re.sub\<close> as the replacement template, escaped only as the pattern,
  and a term with a backslash escape that the template syntax does not know makes
  \<open>re.sub\<close> raise. In the loop that ranks without an index nothing catches the
  exception, so a keyword or hybrid search for such a term that finds a document leaves
  \<open>search_documents\<close> with the exception, and the endpoint answers 500. Here the engine
  was created on an empty database, and the document was completed afterwards.
\<close>

theorem search_raises_on_escape:
  "new_search_engine False two_documents (\<lambda>t. True) [] = Inr empty_engine
   \<and> \<not> embedding_model empty_engine
   \<and> semantic_search regex_ext empty_engine backslash_d no_filters 20 = []
   \<and> map doc_id (candidates regex_ext backslash_d no_filters 20) = [7]
   \<and> re_sub regex_ext backslash_d (mark_template backslash_d)
        (context_of (''digits with '' @ backslash_d) 12 2) = Inl Re_error
   \<and> search_documents regex_ext empty_engine backslash_d ''keyword'' no_filters 20
       = (Inl Re_error, [Keyword_retriever])
   \<and> search_documents regex_ext empty_engine backslash_d ''hybrid'' no_filters 20
       = (Inl Re_error, [Keyword_retriever])
   \<and> api_search_documents example_dates example_ints regex_ext (Inr empty_engine) None
       (blank_request\<lparr>arg_q := Some backslash_d\<rparr>)
     = (Error_response ''Search failed'' 500, Some empty_engine, [Index_build, Keyword_retriever])"
  by code_simp


theorem search_raises_on_escape_witness:
  "search_documents regex_ext empty_engine backslash_d ''keyword'' no_filters 20
     = (Inl Re_error, [Keyword_retriever])
   \<and> embedding_model empty_engine = False"
  using search_raises_on_escape by simp

section \<open>Keyword retrieval against the index snapshot\<close>

lemma similarity_map_dom:
  assumes "similarity_map ids sims = Some m"
  shows "dom m = set ids"
proof -
  from assms have len: "length ids \<le> length sims" and m: "m = map_of (rev (zip ids sims))"
    by (auto simp: similarity_map_def split: if_splits)
  have "dom m = fst ` set (zip ids sims)"
    unfolding m by (simp add: dom_map_of_conv_image_fst)
  also have "\<dots> = set (map fst (zip ids sims))" by simp
  also have "map fst (zip ids sims) = take (min (length ids) (length sims)) ids"
    by (rule map_fst_zip_take)
  also have "take (min (length ids) (length sims)) ids = ids"
    using len by (simp add: min_def)
  finally show ?thesis .
qed

lemma tfidf_loop_member:
  assumes "r \<in> set (fst (tfidf_loop sub query m docs acc))"
  shows "r \<in> set acc \<or>
         (\<exists>doc v hs. doc \<in> set docs \<and> m (doc_id doc) = Some v \<and> 0.01 < v
                    \<and> r = keyword_result doc v hs)"
  using assms
proof (induction docs arbitrary: acc)
  case Nil
  then show ?case by simp
next
  case (Cons doc rest)
  show ?case
  proof (cases "m (doc_id doc)")
    case None
    with Cons.prems have "r \<in> set (fst (tfidf_loop sub query m rest acc))" by simp
    from Cons.IH [OF this] show ?thesis by auto
  next
    case (Some v)
    show ?thesis
    proof (cases "0.01 < v")
      case False
      with Some Cons.prems have "r \<in> set (fst (tfidf_loop sub query m rest acc))" by simp
      from Cons.IH [OF this] show ?thesis by auto
    next
      case True
      show ?thesis
      proof (cases "extract_highlights sub doc query")
        case (Inl e)
        with Some True Cons.prems show ?thesis by simp
      next
        case (Inr hs)
        with Some True Cons.prems
        have "r \<in> set (fst (tfidf_loop sub query m rest (acc @ [keyword_result doc v hs])))"
          by simp
        from Cons.IH [OF this] Some True show ?thesis by auto
      qed
    qed
  qed
qed

lemma tfidf_loop_raised:
  assumes "snd (tfidf_loop sub query m docs acc)"
  shows "\<exists>doc\<in>set docs. \<exists>e. extract_highlights sub doc query = Inl e"
  using assms
proof (induction docs arbitrary: acc)
  case Nil
  then show ?case by simp
next
  case (Cons doc rest)
  show ?case
  proof (cases "extract_highlights sub doc query")
    case (Inl e)
    then show ?thesis by auto
  next
    case (Inr hs)
    with Cons.prems have "\<exists>acc'. snd (tfidf_loop sub query m rest acc')"
      by (auto simp: Let_def split: if_splits)
    with Cons.IH show ?thesis by auto
  qed
qed

lemma simple_loop_raises:
  assumes "\<exists>doc\<in>set docs. \<exists>e. extract_highlights sub doc query = Inl e"
  shows "\<exists>e. simple_loop sub query docs acc = Inl e"
  using assms
proof (induction docs arbitrary: acc)
  case Nil
  then show ?case by simp
next
  case (Cons doc rest)
  show ?case
  proof (cases "extract_highlights sub doc query")
    case (Inl e)
    then show ?thesis by simp
  next
    case (Inr hs)
    with Cons.prems have "\<exists>d\<in>set rest. \<exists>e. extract_highlights sub d query = Inl e"
      by auto
    from Cons.IH [OF this] Inr show ?thesis by simp
  qed
qed

lemma tfidf_loop_unindexed:
  "m (doc_id doc) = None \<Longrightarrow> tfidf_loop sub query m [doc] acc = (acc, False)"
  by simp

lemma new_search_engine_doc_ids:
  assumes "new_search_engine model_loads fit encode snapshot = Inr eng"
  shows "set (doc_ids eng)
         = doc_id ` {d \<in> set snapshot. processing_status d = ''completed'' \<and> truthy (content d)}"
proof -
  let ?docs = "filter (\<lambda>d. processing_status d = ''completed'') snapshot"
  let ?with = "filter (\<lambda>doc. truthy (content doc)) ?docs"
  have sets: "doc_id ` {d \<in> set snapshot. processing_status d = ''completed'' \<and> truthy (content d)}
              = set (map doc_id ?with)"
    by auto
  have "doc_ids eng = map doc_id ?with"
  proof (cases "?docs = []")
    case True
    with assms show ?thesis
      by (auto simp: new_search_engine_def build_search_index_def)
  next
    case False
    show ?thesis
    proof (cases "?with = []")
      case True
      with False assms show ?thesis
        by (auto simp: new_search_engine_def build_search_index_def Let_def split: if_splits)
    next
      case w: False
      with False assms show ?thesis
        by (auto simp: new_search_engine_def build_search_index_def Let_def split: if_splits)
    qed
  qed
  with sets show ?thesis by simp
qed

lemma keyword_search_tfidf_path:
  assumes index: "tfidf_built eng"
    and sims: "similarities ext query = Some sims"
    and m: "similarity_map (doc_ids eng) sims = Some m"
  shows "set (returned (keyword_search ext eng query filters limit))
         \<subseteq> set (fst (tfidf_loop (re_sub ext) query m (candidates ext query filters limit) []))"
proof -
  obtain results raised
    where loop: "tfidf_loop (re_sub ext) query m (candidates ext query filters limit) []
                 = (results, raised)"
    by (cases "tfidf_loop (re_sub ext) query m (candidates ext query filters limit) []")
  show ?thesis
  proof (cases raised)
    case True
    with loop have "snd (tfidf_loop (re_sub ext) query m (candidates ext query filters limit) [])"
      by simp
    from simple_loop_raises [OF tfidf_loop_raised [OF this]]
    obtain e where "simple_loop (re_sub ext) query (candidates ext query filters limit) results
                    = Inl e"
      by blast
    with True have "keyword_search ext eng query filters limit = Inl e"
      by (simp add: keyword_search_def Let_def index sims m loop)
    then show ?thesis by simp
  next
    case False
    then have "keyword_search ext eng query filters limit = Inr (sort_by_score results)"
      by (simp add: keyword_search_def Let_def index sims m loop)
    then show ?thesis by (simp add: sort_by_score_def loop)
  qed
qed

text \<open>
  C10. Let the engine have been built from a snapshot of the documents, with a TF-IDF
  index, and let the TF-IDF computation of a keyword search succeed with a similarity for
  every indexed document. Then every result the search returns is a candidate whose id
  belongs to a document that was completed, with content, in the snapshot, and its score
  is above 0.01. A candidate whose id is not in the index gets the similarity 0.0 and is
  not returned, whatever the pre-filter found.
\<close>

theorem keyword_search_only_indexed:
  assumes built: "new_search_engine model_loads fit encode snapshot = Inr eng"
    and index: "tfidf_built eng"
    and sims: "similarities ext query = Some sims"
    and len: "length (doc_ids eng) \<le> length sims"
  shows "(\<forall>r\<in>set (returned (keyword_search ext eng query filters limit)).
            res_document r \<in> set (candidates ext query filters limit)
          \<and> result_doc r \<in> doc_id ` {d \<in> set snapshot. processing_status d = ''completed''
                                                        \<and> truthy (content d)}
          \<and> 0.01 < score r)
       \<and> (\<exists>m. similarity_map (doc_ids eng) sims = Some m
            \<and> (\<forall>doc. doc_id doc \<notin> set (doc_ids eng) \<longrightarrow>
                  (case m (doc_id doc) of Some v \<Rightarrow> v | None \<Rightarrow> 0.0) = 0.0
                \<and> tfidf_loop (re_sub ext) query m [doc] [] = ([], False)
                \<and> doc_id doc
                    \<notin> result_doc ` set (returned (keyword_search ext eng query filters limit))))"
proof -
  from len obtain m where m: "similarity_map (doc_ids eng) sims = Some m"
    by (auto simp: similarity_map_def)
  have dom: "dom m = set (doc_ids eng)" using m by (rule similarity_map_dom)
  note path = keyword_search_tfidf_path [OF index sims m, of filters limit]
  have each: "res_document r \<in> set (candidates ext query filters limit)
          \<and> result_doc r \<in> set (doc_ids eng) \<and> 0.01 < score r"
    if "r \<in> set (returned (keyword_search ext eng query filters limit))" for r
  proof -
    from that path
    have "r \<in> set (fst (tfidf_loop (re_sub ext) query m (candidates ext query filters limit) []))"
      by blast
    from tfidf_loop_member [OF this]
    obtain doc v hs where dv: "doc \<in> set (candidates ext query filters limit)"
      "m (doc_id doc) = Some v" "0.01 < v" "r = keyword_result doc v hs"
      by auto
    from dv(2) dom have "doc_id doc \<in> set (doc_ids eng)" by blast
    with dv show ?thesis by (simp add: keyword_result_def result_doc_def)
  qed
  have first: "\<forall>r\<in>set (returned (keyword_search ext eng query filters limit)).
            res_document r \<in> set (candidates ext query filters limit)
          \<and> result_doc r \<in> doc_id ` {d \<in> set snapshot. processing_status d = ''completed''
                                                        \<and> truthy (content d)}
          \<and> 0.01 < score r"
  proof
    fix r assume "r \<in> set (returned (keyword_search ext eng query filters limit))"
    from each [OF this] new_search_engine_doc_ids [OF built]
    show "res_document r \<in> set (candidates ext query filters limit)
          \<and> result_doc r \<in> doc_id ` {d \<in> set snapshot. processing_status d = ''completed''
                                                        \<and> truthy (content d)}
          \<and> 0.01 < score r"
      by simp
  qed
  have second: "(case m (doc_id doc) of Some v \<Rightarrow> v | None \<Rightarrow> 0.0) = 0.0
                \<and> tfidf_loop (re_sub ext) query m [doc] [] = ([], False)
                \<and> doc_id doc
                    \<notin> result_doc ` set (returned (keyword_search ext eng query filters limit))"
    if "doc_id doc \<notin> set (doc_ids eng)" for doc
  proof -
    from that dom have none: "m (doc_id doc) = None" by blast
    have "doc_id doc
            \<notin> result_doc ` set (returned (keyword_search ext eng query filters limit))"
    proof
      assume "doc_id doc
                \<in> result_doc ` set (returned (keyword_search ext eng query filters limit))"
      then obtain r where "r \<in> set (returned (keyword_search ext eng query filters limit))"
        and "result_doc r = doc_id doc" by (auto simp: image_iff)
      with each [of r] that show False by simp
    qed
    with none show ?thesis by (simp add: tfidf_loop_unindexed)
  qed
  from m first second show ?thesis by blast
qed

theorem keyword_search_only_indexed_witness:
  "new_search_engine False two_documents (\<lambda>t. True)
      [doc_with 1 ''usability of menus'', doc_with 2 ''menus and forms'']
     = Inr indexed_engine
   \<and> map doc_id (candidates example_ext ''usability'' no_filters 20) = [1, 2, 3]
   \<and> map result_doc (returned (keyword_search example_ext indexed_engine ''usability'' no_filters 20))
       = [1]
   \<and> 3 \<notin> result_doc ` set (returned (keyword_search example_ext indexed_engine ''usability''
                                          no_filters 20))"
proof -
  have b: "new_search_engine False two_documents (\<lambda>t. True)
      [doc_with 1 ''usability of menus'', doc_with 2 ''menus and forms'']
     = Inr indexed_engine" by code_simp
  have i: "tfidf_built indexed_engine" by code_simp
  have s: "similarities example_ext ''usability'' = Some [0.7, 0.0]"
    by (simp add: example_ext_def)
  have l: "length (doc_ids indexed_engine) \<le> length [0.7, 0.0 :: real]" by code_simp
  have c: "map doc_id (candidates example_ext ''usability'' no_filters 20) = [1, 2, 3]"
    by code_simp
  have k: "map result_doc (returned (keyword_search example_ext indexed_engine ''usability''
                                       no_filters 20)) = [1]"
    by code_simp
  have n: "doc_id (doc_with 3 ''usability testing'') \<notin> set (doc_ids indexed_engine)"
    by code_simp
  have d: "doc_id (doc_with 3 ''usability testing'') = 3" by code_simp
  from keyword_search_only_indexed [OF b i s l, of no_filters 20]
  obtain m where "\<forall>doc. doc_id doc \<notin> set (doc_ids indexed_engine) \<longrightarrow>
      (case m (doc_id doc) of Some v \<Rightarrow> v | None \<Rightarrow> 0.0) = 0.0
      \<and> tfidf_loop (re_sub example_ext) ''usability'' m [doc] [] = ([], False)
      \<and> doc_id doc \<notin> result_doc ` set (returned (keyword_search example_ext indexed_engine
                                                     ''usability'' no_filters 20))"
    by blast
  then have "doc_id (doc_with 3 ''usability testing'')
      \<notin> result_doc ` set (returned (keyword_search example_ext indexed_engine ''usability''
                                       no_filters 20))"
    using n by blast
  then have "3 \<notin> result_doc ` set (returned (keyword_search example_ext indexed_engine
                                                ''usability'' no_filters 20))"
    by (simp only: d simp_thms)
  with b c k show ?thesis by blast
qed

end
